theory Spec2Isabelle
  imports Complex_Main
begin

section \<open>gym-gridverse: environment composition and the gym wrapper\<close>

text \<open>
  A shallow embedding of \<^verbatim>\<open>gym_gridverse/envs/factory.py\<close>,
  \<^verbatim>\<open>gym_gridverse/gym.py\<close> and \<^verbatim>\<open>gym_gridverse/observation.py\<close>.
  Python exceptions are values of \<open>error\<close>; a function that may raise returns
  \<open>error + 'a\<close>. A Python float is an IEEE 754 binary64 number, with the rounding
  of its addition. The hidden state of the stochastic collaborators (the seeded
  generators behind the reset functions and the stochastic transition rules) is an
  explicit value of type \<open>'w\<close>, passed in and returned.
\<close>

subsection \<open>Errors\<close>

text \<open>
  \<open>ValueError\<close> and \<open>KeyError\<close> are Python's, with their message or key. The
  other three are the errors of the parts modelled from the spec: a step before the
  first reset, an action that is not in the action space, and an action integer outside
  \<open>[0, num_actions)\<close> (with the integer and \<open>num_actions\<close>).
\<close>

datatype error =
    ValueError string
  | KeyError string
  | ResetRequired
  | InvalidAction
  | ActionOutOfRange int int

subsection \<open>Python floats\<close>

text \<open>
  A Python float is an IEEE 754 binary64 number. \<open>Finite s m e\<close> is the number
  \<open>(-1)\<^sup>s \<sdot> m \<sdot> 2\<^sup>e\<close>; zero has a sign. A double is written with \<open>m\<close> odd, or
  with \<open>m = 0\<close> and \<open>e = 0\<close>; it has \<open>m < 2\<^sup>5\<^sup>3\<close>, \<open>- 1074 \<le> e\<close> and a
  magnitude below \<open>2\<^sup>1\<^sup>0\<^sup>2\<^sup>4\<close>.
\<close>

datatype float = Finite bool nat int | Infinity bool | NaN

text \<open>The number of binary digits of a natural number.\<close>

fun bitlen :: "nat \<Rightarrow> nat" where
  "bitlen n = (if n = 0 then 0 else Suc (bitlen (n div 2)))"

text \<open>The same number with an odd mantissa.\<close>

fun normalize_float :: "nat \<Rightarrow> int \<Rightarrow> nat \<times> int" where
  "normalize_float m e =
     (if m \<noteq> 0 \<and> even m then normalize_float (m div 2) (e + 1) else (m, e))"

declare bitlen.simps [simp del]

declare normalize_float.simps [simp del]

text \<open>
  The double nearest to \<open>(-1)\<^sup>s \<sdot> m \<sdot> 2\<^sup>e\<close>, for \<open>0 < m\<close>: round to nearest, ties to
  even. The \<open>k\<close> low digits that do not fit the 53 digits of the mantissa, or that lie
  below the least exponent \<open>- 1074\<close>, are dropped; a result of \<open>2\<^sup>1\<^sup>0\<^sup>2\<^sup>4\<close> or more is
  an infinity.
\<close>

definition round_to_double :: "bool \<Rightarrow> nat \<Rightarrow> int \<Rightarrow> float" where
  "round_to_double s m e =
     (let k = max (int (bitlen m) - 53) (- 1074 - e) in
      case (if k \<le> 0 then (m, e)
            else (let d = 2 ^ nat k; q = m div d; r = m mod d; half = d div 2
                  in (if half < r \<or> (r = half \<and> odd q) then q + 1 else q, e + k))) of
        (q, e') \<Rightarrow>
          if q = 0 then Finite s 0 0
          else if 1024 < int (bitlen q) + e' then Infinity s
          else (case normalize_float q e' of (m', e'') \<Rightarrow> Finite s m' e''))"

text \<open>
  The addition of two floats (the \<^verbatim>\<open>+\<close> of Python on floats): the exact sum,
  rounded. A sum of two zeros has the sign that both have, or is \<open>+0\<close>; an exact sum
  of zero of two other numbers is \<open>+0\<close>.
\<close>

fun fadd :: "float \<Rightarrow> float \<Rightarrow> float" where
  "fadd NaN y = NaN"
| "fadd x NaN = NaN"
| "fadd (Infinity s) (Infinity t) = (if s = t then Infinity s else NaN)"
| "fadd (Infinity s) (Finite t n f) = Infinity s"
| "fadd (Finite s m e) (Infinity t) = Infinity t"
| "fadd (Finite s m e) (Finite t n f) =
     (if m = 0 \<and> n = 0 then Finite (s \<and> t) 0 0
      else
        (let g = min e f;
             x = (if s then - 1 else 1) * (int m * 2 ^ nat (e - g))
               + (if t then - 1 else 1) * (int n * 2 ^ nat (f - g))
         in if x = 0 then Finite False 0 0
            else round_to_double (x < 0) (nat \<bar>x\<bar>) g))"

text \<open>
  Python's builtin \<^verbatim>\<open>sum\<close> on floats: it starts from the integer 0, which the
  first addition converts to the float \<open>+0\<close>, and adds the items from left to right.
\<close>

definition py_sum :: "float list \<Rightarrow> float" where
  "py_sum xs = foldl fadd (Finite False 0 0) xs"



text \<open>
  The conversion of a float to a 64-bit integer, as the cast of numpy does it: the
  fraction is dropped; a number outside the range of the integers, an infinity or a NaN
  gives \<open>- 2\<^sup>6\<^sup>3\<close> (the result of the conversion instruction of x86-64).
\<close>

fun float_to_int64 :: "float \<Rightarrow> int" where
  "float_to_int64 (Finite s m e) =
     (let t = (if 0 \<le> e then int m * 2 ^ nat e else int m div 2 ^ nat (- e));
          v = (if s then - t else t)
      in if - (2 ^ 63) \<le> v \<and> v < 2 ^ 63 then v else - (2 ^ 63))"
| "float_to_int64 (Infinity s) = - (2 ^ 63)"
| "float_to_int64 NaN = - (2 ^ 63)"

subsection \<open>Numeric arrays and gym spaces\<close>

text \<open>
  A \<^verbatim>\<open>np.ndarray\<close>: its element type, its shape and its elements in row-major
  order. The element types are the 64-bit signed and unsigned integers and the floats;
  an element is an integer or a float. \<open>valid_elem\<close> says that an element is of the
  element type.
\<close>

datatype dtype = int64 | uint64 | float64

datatype scalar = IntVal int | FloatVal float

record ndarray =
  dtype :: dtype
  shape :: "nat list"
  data :: "scalar list"

fun valid_elem :: "dtype \<Rightarrow> scalar \<Rightarrow> bool" where
  "valid_elem int64 (IntVal i) = (- (2 ^ 63) \<le> i \<and> i < 2 ^ 63)"
| "valid_elem uint64 (IntVal i) = (0 \<le> i \<and> i < 2 ^ 64)"
| "valid_elem float64 (FloatVal f) = True"
| "valid_elem t x = False"

text \<open>\<^verbatim>\<open>np.zeros_like(v)\<close>: same element type and shape, every element zero.\<close>

fun zero_of :: "dtype \<Rightarrow> scalar" where
  "zero_of float64 = FloatVal (Finite False 0 0)"
| "zero_of t = IntVal 0"

definition zeros_like :: "ndarray \<Rightarrow> ndarray" where
  "zeros_like v =
     \<lparr>dtype = dtype v, shape = shape v, data = replicate (length (data v)) (zero_of (dtype v))\<rparr>"

text \<open>
  \<^verbatim>\<open>a.astype(np.int)\<close>, where \<^verbatim>\<open>np.int\<close> is the 64-bit signed integer: an
  integer wraps around modulo \<open>2\<^sup>6\<^sup>4\<close>, a float is converted.
\<close>

fun cast_int64 :: "scalar \<Rightarrow> scalar" where
  "cast_int64 (IntVal i) = IntVal ((i + 2 ^ 63) mod 2 ^ 64 - 2 ^ 63)"
| "cast_int64 (FloatVal f) = IntVal (float_to_int64 f)"

definition astype_int64 :: "ndarray \<Rightarrow> ndarray" where
  "astype_int64 a = \<lparr>dtype = int64, shape = shape a, data = map cast_int64 (data a)\<rparr>"

text \<open>
  \<^verbatim>\<open>gym.spaces.Box(low=..., high=..., dtype=np.int)\<close>: the two bound arrays, which
  the constructor casts to the element type (\<^verbatim>\<open>low.astype(dtype)\<close>,
  \<^verbatim>\<open>high.astype(dtype)\<close>). \<^verbatim>\<open>gym.spaces.Dict\<close> is a dictionary from names to
  boxes, and \<^verbatim>\<open>gym.spaces.Discrete(n)\<close> is the integers \<open>0, ..., n - 1\<close>.
\<close>

record Box =
  low :: ndarray
  high :: ndarray

definition Box_init :: "ndarray \<Rightarrow> ndarray \<Rightarrow> Box" where
  "Box_init l h = \<lparr>low = astype_int64 l, high = astype_int64 h\<rparr>"

type_synonym DictSpace = "string \<rightharpoonup> Box"

datatype Discrete = Discrete int

fun discrete_contains :: "Discrete \<Rightarrow> int \<Rightarrow> bool" where
  "discrete_contains (Discrete n) i = (0 \<le> i \<and> i < n)"

text \<open>
  \<^verbatim>\<open>
  def outer_space_to_gym_space(space):
      return gym.spaces.Dict(
          {k: gym.spaces.Box(low=np.zeros_like(v), high=v, dtype=np.int)
           for k, v in space.items()})
  \<close>
\<close>

definition outer_space_to_gym_space :: "(string \<rightharpoonup> ndarray) \<Rightarrow> DictSpace" where
  "outer_space_to_gym_space space =
     (\<lambda>k. case space k of
             None \<Rightarrow> None
           | Some v \<Rightarrow> Some (Box_init (zeros_like v) v))"

subsection \<open>Observations\<close>

text \<open>
  \<^verbatim>\<open>
  class Observation:
      def __init__(self, grid: Grid, agent: Agent):
          self.grid = grid
          self.agent = agent

      def __eq__(self, other):
          if isinstance(other, Observation):
              return self.grid == other.grid and self.agent == other.agent
          return NotImplemented
  \<close>
  The classes \<open>Grid\<close> and \<open>Agent\<close> of the module \<^verbatim>\<open>info\<close> are type
  parameters, and their \<^verbatim>\<open>==\<close> are parameters of \<open>Observation_eq\<close>. The
  right operand of \<^verbatim>\<open>==\<close> is any Python value: an observation or a value of
  another type. The result of \<^verbatim>\<open>__eq__\<close> is a truth value or the
  \<^verbatim>\<open>NotImplemented\<close> singleton.
\<close>

record ('grid, 'agent) Observation =
  grid :: 'grid
  agent :: 'agent

datatype ('grid, 'agent, 'other) py_value =
    ObservationValue "('grid, 'agent) Observation"
  | OtherValue 'other

datatype eq_result = Truth bool | NotImplemented

fun isinstance_Observation :: "('grid, 'agent, 'other) py_value \<Rightarrow> bool" where
  "isinstance_Observation (ObservationValue _) = True"
| "isinstance_Observation (OtherValue _) = False"

fun Observation_eq ::
  "('grid \<Rightarrow> 'grid \<Rightarrow> bool) \<Rightarrow> ('agent \<Rightarrow> 'agent \<Rightarrow> bool) \<Rightarrow>
   ('grid, 'agent) Observation \<Rightarrow> ('grid, 'agent, 'other) py_value \<Rightarrow> eq_result" where
  "Observation_eq grid_eq agent_eq self (ObservationValue other) =
     Truth (if grid_eq (grid self) (grid other)
            then agent_eq (agent self) (agent other) else False)"
| "Observation_eq grid_eq agent_eq self (OtherValue _) = NotImplemented"

subsection \<open>Space contracts\<close>

text \<open>\<^verbatim>\<open>Shape(height, width)\<close>, as in \<^verbatim>\<open>Shape(7, 7)\<close>.\<close>

record Shape =
  height :: int
  width :: int

text \<open>
  The grid-object classes and the colors that the factory names. The classes are used
  as values (\<^verbatim>\<open>objects = [Wall, Floor, Goal]\<close>).
\<close>

datatype GridObjectType = Wall | Floor | Goal | Door | Key | MovingObstacle

datatype Color = NONE | RED | YELLOW

text \<open>
  Modelled from the spec: the classes \<open>StateSpace\<close>, \<open>ObservationSpace\<close>,
  \<open>ActionSpace\<close> and \<open>DomainSpace\<close> of the module \<^verbatim>\<open>spaces\<close>, which is
  not among the sources. Each space "holds the legal shape and the finite set of
  permitted object kinds / colors / actions"; a domain space is "an immutable triple
  (StateSpace, ActionSpace, ObservationSpace)". The fields are the constructor arguments
  of the factory: \<^verbatim>\<open>StateSpace(grid_shape, objects, colors)\<close>,
  \<^verbatim>\<open>ObservationSpace(observation_shape, objects, colors)\<close>,
  \<^verbatim>\<open>ActionSpace(list(Action))\<close>.
\<close>

record StateSpace =
  grid_shape :: Shape
  object_types :: "GridObjectType list"
  colors :: "Color list"

record ObservationSpace =
  grid_shape :: Shape
  object_types :: "GridObjectType list"
  colors :: "Color list"

record 'act ActionSpace =
  actions :: "'act list"

record 'act DomainSpace =
  state_space :: StateSpace
  action_space :: "'act ActionSpace"
  observation_space :: ObservationSpace

text \<open>
  Modelled from the spec: the members \<^verbatim>\<open>num_actions\<close>, \<^verbatim>\<open>contains\<close> and
  \<^verbatim>\<open>int_to_action\<close> of \<open>ActionSpace\<close>. "Actions are exposed externally as a
  dense integer range \<open>[0, num_actions)\<close>; the engine maps each integer to one internal
  Action value in a fixed, declared enumeration order", and "an action integer outside
  \<open>[0, num_actions)\<close> is rejected with a validation error naming the legal range".
\<close>

definition num_actions :: "'act ActionSpace \<Rightarrow> int" where
  "num_actions sp = int (length (actions sp))"

definition contains :: "'act ActionSpace \<Rightarrow> 'act \<Rightarrow> bool" where
  "contains sp a = (a \<in> set (actions sp))"

definition int_to_action :: "'act ActionSpace \<Rightarrow> int \<Rightarrow> error + 'act" where
  "int_to_action sp i =
     (if 0 \<le> i \<and> i < num_actions sp then Inr (actions sp ! nat i)
      else Inl (ActionOutOfRange i (num_actions sp)))"

subsection \<open>Rules\<close>

text \<open>
  The signatures of the rules. A reset function and a transition rule may be stochastic:
  they take the state \<open>'w\<close> of their generators and return it advanced. A reset
  function may raise. A reward is a Python float.
\<close>

type_synonym ('s, 'w) ResetFunction = "'w \<Rightarrow> error + ('s \<times> 'w)"
type_synonym ('s, 'act, 'w) TransitionFunction = "'s \<Rightarrow> 'act \<Rightarrow> 'w \<Rightarrow> 's \<times> 'w"
type_synonym ('s, 'act) RewardFunction = "'s \<Rightarrow> 'act \<Rightarrow> 's \<Rightarrow> float"
type_synonym ('s, 'act) TerminatingFunction = "'s \<Rightarrow> 'act \<Rightarrow> 's \<Rightarrow> bool"

text \<open>
  Modelled from the spec: \<^verbatim>\<open>transition_functions.chain\<close>, which is not among the
  sources. "Apply each transition rule in sequence order, each rule consuming the
  evolving next state and the original action, producing the next next state"; "an empty
  transition list is legal and yields \<open>next_state == state\<close>".
\<close>

fun chain ::
  "'s \<Rightarrow> 'act \<Rightarrow> 'w \<Rightarrow> ('s, 'act, 'w) TransitionFunction list \<Rightarrow> 's \<times> 'w" where
  "chain s a w [] = (s, w)"
| "chain s a w (f # fs) = (case f s a w of (s', w') \<Rightarrow> chain s' a w' fs)"

subsection \<open>The inner environment\<close>

text \<open>
  Modelled from the spec: the classes \<open>InnerEnv\<close> and \<open>GridWorld\<close>, which are not
  among the sources. An inner environment "owns current state, the three Space
  Contracts, and the composed step function", and a reset function. Its fields are the
  three spaces, the arguments of
  \<^verbatim>\<open>GridWorld(domain_space, reset, transition, observation, reward, termination)\<close>,
  and the current state and observation, \<open>None\<close> before the first reset.
\<close>

record ('s, 'act, 'obs, 'w) InnerEnv =
  state_space :: StateSpace
  action_space :: "'act ActionSpace"
  observation_space :: ObservationSpace
  reset_function :: "('s, 'w) ResetFunction"
  transition_function :: "('s, 'act, 'w) TransitionFunction"
  observation_function :: "'s \<Rightarrow> 'obs"
  reward_function :: "('s, 'act) RewardFunction"
  termination_function :: "('s, 'act) TerminatingFunction"
  state :: "'s option"
  observation :: "'obs option"

definition GridWorld ::
  "'act DomainSpace \<Rightarrow> ('s, 'w) ResetFunction \<Rightarrow> ('s, 'act, 'w) TransitionFunction \<Rightarrow>
   ('s \<Rightarrow> 'obs) \<Rightarrow> ('s, 'act) RewardFunction \<Rightarrow> ('s, 'act) TerminatingFunction \<Rightarrow>
   ('s, 'act, 'obs, 'w) InnerEnv" where
  "GridWorld domain_space reset transition observation_f reward_f termination_f =
     \<lparr>InnerEnv.state_space = DomainSpace.state_space domain_space,
      InnerEnv.action_space = DomainSpace.action_space domain_space,
      InnerEnv.observation_space = DomainSpace.observation_space domain_space,
      reset_function = reset,
      transition_function = transition,
      observation_function = observation_f,
      reward_function = reward_f,
      termination_function = termination_f,
      state = None,
      observation = None\<rparr>"

text \<open>
  Modelled from the spec: the composed step function (section 4.1). The next state is
  the transition applied to the state and the action; the reward and the done flag are
  the reward and termination functions on \<open>(state, action, next_state)\<close>; the
  observation is the observation function on the next state.
\<close>

definition functional_step ::
  "('s, 'act, 'obs, 'w) InnerEnv \<Rightarrow> 's \<Rightarrow> 'act \<Rightarrow> 'w \<Rightarrow> ('s \<times> float \<times> bool \<times> 'obs) \<times> 'w" where
  "functional_step env s a w =
     (case transition_function env s a w of
        (next_state, w') \<Rightarrow>
          ((next_state,
            reward_function env s a next_state,
            termination_function env s a next_state,
            observation_function env next_state), w'))"

text \<open>
  Modelled from the spec: \<^verbatim>\<open>InnerEnv.step\<close> (section 4.2). It "requires Ready;
  validates action against ActionSpace (error otherwise); runs the Composition Engine;
  atomically replaces canonical state with next state; returns (reward, done)". The
  observation computed by the step stays readable afterwards.
\<close>

definition step ::
  "('s, 'act, 'obs, 'w) InnerEnv \<Rightarrow> 'act \<Rightarrow> 'w \<Rightarrow>
   error + ((float \<times> bool) \<times> ('s, 'act, 'obs, 'w) InnerEnv \<times> 'w)" where
  "step env a w =
     (case state env of
        None \<Rightarrow> Inl ResetRequired
      | Some s \<Rightarrow>
          if \<not> contains (InnerEnv.action_space env) a then Inl InvalidAction
          else
            (case functional_step env s a w of
               ((next_state, r, terminal, obs), w') \<Rightarrow>
                 Inr ((r, terminal),
                      env\<lparr>state := Some next_state, observation := Some obs\<rparr>,
                      w')))"

subsection \<open>The factory\<close>

text \<open>
  The closures of \<open>create_env\<close>:
  \<^verbatim>\<open>
  def reward(state, action, next_state):
      return sum(r(state, action, next_state) for r in rewards)

  def termination(state, action, next_state):
      return any(t(state, action, next_state) for t in terminations)
  \<close>
  Python's \<^verbatim>\<open>sum\<close> starts from 0 and adds the items from left to right, each
  rule being called when its item is added; the additions are those of floats, with
  their rounding. Python's \<^verbatim>\<open>any\<close> stops at the first true item and is false
  when there is none. The closure \<^verbatim>\<open>termination\<close> is \<open>termination_fn\<close> here.
\<close>

definition reward ::
  "('s, 'act) RewardFunction list \<Rightarrow> 's \<Rightarrow> 'act \<Rightarrow> 's \<Rightarrow> float" where
  "reward rewards s a next_state =
     foldl (\<lambda>acc r. fadd acc (r s a next_state)) (Finite False 0 0) rewards"

fun termination_fn ::
  "('s, 'act) TerminatingFunction list \<Rightarrow> 's \<Rightarrow> 'act \<Rightarrow> 's \<Rightarrow> bool" where
  "termination_fn [] s a next_state = False"
| "termination_fn (t # terminations) s a next_state =
     (if t s a next_state then True else termination_fn terminations s a next_state)"

text \<open>
  \<^verbatim>\<open>
  def create_env(domain_space, reset, transition_functions, rewards, terminations):
      transition = partial(transition_fs.chain, transition_functions=transition_functions)
      observation = partial(observation_functions.minigrid_observation,
                            observation_space=domain_space.observation_space)
      ...
      return GridWorld(domain_space, reset, transition, observation, reward, termination)
  \<close>
  The observation function \<^verbatim>\<open>minigrid_observation\<close> is a parameter.
\<close>

definition create_env ::
  "('s \<Rightarrow> ObservationSpace \<Rightarrow> 'obs) \<Rightarrow> 'act DomainSpace \<Rightarrow> ('s, 'w) ResetFunction \<Rightarrow>
   ('s, 'act, 'w) TransitionFunction list \<Rightarrow> ('s, 'act) RewardFunction list \<Rightarrow>
   ('s, 'act) TerminatingFunction list \<Rightarrow> ('s, 'act, 'obs, 'w) InnerEnv" where
  "create_env minigrid_observation domain_space reset transition_functions rewards terminations =
     GridWorld domain_space reset
       (\<lambda>s a w. chain s a w transition_functions)
       (\<lambda>s. minigrid_observation s (DomainSpace.observation_space domain_space))
       (reward rewards)
       (termination_fn terminations)"

text \<open>
  The functions of the modules \<^verbatim>\<open>reset_functions\<close>, \<^verbatim>\<open>transition_functions\<close>,
  \<^verbatim>\<open>reward_functions\<close>, \<^verbatim>\<open>terminating_functions\<close> and
  \<^verbatim>\<open>observation_functions\<close> that the factory names, the list of all actions
  \<^verbatim>\<open>list(Action)\<close> and the reading \<^verbatim>\<open>state.grid.shape\<close> are not among the
  sources: they are the fields of this record, a parameter of every builder. The reset
  functions take their positional arguments in the order of the factory's
  \<^verbatim>\<open>partial\<close> calls.
\<close>

record ('s, 'act, 'obs, 'w) collaborators =
  Action_list :: "'act list"
  grid_shape_of :: "'s \<Rightarrow> Shape"
  reset_empty :: "int \<Rightarrow> int \<Rightarrow> bool \<Rightarrow> ('s, 'w) ResetFunction"
  reset_rooms :: "int \<Rightarrow> int \<Rightarrow> int \<times> int \<Rightarrow> ('s, 'w) ResetFunction"
  reset_dynamic_obstacles :: "int \<Rightarrow> int \<Rightarrow> int \<Rightarrow> bool \<Rightarrow> ('s, 'w) ResetFunction"
  reset_keydoor :: "int \<Rightarrow> int \<Rightarrow> ('s, 'w) ResetFunction"
  update_agent :: "('s, 'act, 'w) TransitionFunction"
  step_moving_obstacles :: "('s, 'act, 'w) TransitionFunction"
  actuate_door :: "('s, 'act, 'w) TransitionFunction"
  pickup_mechanics :: "('s, 'act, 'w) TransitionFunction"
  reward_reach_goal :: "('s, 'act) RewardFunction"
  reward_bump_moving_obstacle :: "('s, 'act) RewardFunction"
  reward_bump_into_wall :: "('s, 'act) RewardFunction"
  terminating_reach_goal :: "('s, 'act) TerminatingFunction"
  terminating_bump_moving_obstacle :: "('s, 'act) TerminatingFunction"
  terminating_bump_into_wall :: "('s, 'act) TerminatingFunction"
  minigrid_observation :: "'s \<Rightarrow> ObservationSpace \<Rightarrow> 'obs"

text \<open>
  A builder returns the environment and the generators' state after the one call of
  the reset function that it makes (\<^verbatim>\<open>grid_shape = reset_func().grid.shape\<close>).
  When that call raises, the builder raises the same error.
  The argument \<^verbatim>\<open>size\<close> is \<open>sz\<close> here.
\<close>

definition plain_navigation_task ::
  "('s, 'act, 'obs, 'w) collaborators \<Rightarrow> ('s, 'w) ResetFunction \<Rightarrow> 'w \<Rightarrow>
   error + (('s, 'act, 'obs, 'w) InnerEnv \<times> 'w)" where
  "plain_navigation_task lib reset_func w =
     (let transitions = [update_agent lib];
          rewards = [reward_reach_goal lib];
          terminations = [terminating_reach_goal lib]
      in case reset_func w of
        Inl e \<Rightarrow> Inl e
      | Inr (sample, w') \<Rightarrow>
          let grid_shape = grid_shape_of lib sample;
              objects = [Wall, Floor, Goal];
              colors = [NONE];
              state_space = \<lparr>StateSpace.grid_shape = grid_shape,
                             object_types = objects, colors = colors\<rparr>;
              observation_shape = \<lparr>height = 7, width = 7\<rparr>;
              observation_space = \<lparr>ObservationSpace.grid_shape = observation_shape,
                                   object_types = objects, colors = colors\<rparr>;
              action_space = \<lparr>actions = Action_list lib\<rparr>;
              domain_space = \<lparr>DomainSpace.state_space = state_space,
                              action_space = action_space,
                              observation_space = observation_space\<rparr>
          in Inr (create_env (minigrid_observation lib) domain_space reset_func
                    transitions rewards terminations, w'))"

definition env_dynamic_obstacle ::
  "('s, 'act, 'obs, 'w) collaborators \<Rightarrow> int \<Rightarrow> bool \<Rightarrow> int \<Rightarrow> 'w \<Rightarrow>
   error + (('s, 'act, 'obs, 'w) InnerEnv \<times> 'w)" where
  "env_dynamic_obstacle lib sz random_pos num_obstacles w =
     (let reset_func = reset_dynamic_obstacles lib (sz + 2) (sz + 2)
                         num_obstacles random_pos;
          transitions = [update_agent lib, step_moving_obstacles lib];
          rewards = [reward_reach_goal lib, reward_bump_moving_obstacle lib,
                     reward_bump_into_wall lib];
          terminations = [terminating_reach_goal lib, terminating_bump_moving_obstacle lib,
                          terminating_bump_into_wall lib]
      in case reset_func w of
        Inl e \<Rightarrow> Inl e
      | Inr (sample, w') \<Rightarrow>
          let grid_shape = grid_shape_of lib sample;
              objects = [Wall, Floor, Goal, MovingObstacle];
              colors = [NONE];
              state_space = \<lparr>StateSpace.grid_shape = grid_shape,
                             object_types = objects, colors = colors\<rparr>;
              observation_space = \<lparr>ObservationSpace.grid_shape = \<lparr>height = 7, width = 7\<rparr>,
                                   object_types = objects, colors = colors\<rparr>;
              action_space = \<lparr>actions = Action_list lib\<rparr>;
              domain_space = \<lparr>DomainSpace.state_space = state_space,
                              action_space = action_space,
                              observation_space = observation_space\<rparr>
          in Inr (create_env (minigrid_observation lib) domain_space reset_func
                    transitions rewards terminations, w'))"

definition env_empty ::
  "('s, 'act, 'obs, 'w) collaborators \<Rightarrow> int \<Rightarrow> bool \<Rightarrow> 'w \<Rightarrow>
   error + (('s, 'act, 'obs, 'w) InnerEnv \<times> 'w)" where
  "env_empty lib sz random_pos w =
     (let reset = reset_empty lib (sz + 2) (sz + 2) random_pos
      in plain_navigation_task lib reset w)"

definition env_four_room ::
  "('s, 'act, 'obs, 'w) collaborators \<Rightarrow> 'w \<Rightarrow>
   error + (('s, 'act, 'obs, 'w) InnerEnv \<times> 'w)" where
  "env_four_room lib w =
     (let reset = reset_rooms lib 19 19 (2, 2)
      in plain_navigation_task lib reset w)"

definition gym_keydoor_env ::
  "('s, 'act, 'obs, 'w) collaborators \<Rightarrow> int \<Rightarrow> 'w \<Rightarrow>
   error + (('s, 'act, 'obs, 'w) InnerEnv \<times> 'w)" where
  "gym_keydoor_env lib sz w =
     (let reset = reset_keydoor lib (sz + 2) (sz + 2);
          transitions = [update_agent lib, actuate_door lib, pickup_mechanics lib];
          rewards = [reward_reach_goal lib];
          terminations = [terminating_reach_goal lib]
      in case reset w of
        Inl e \<Rightarrow> Inl e
      | Inr (sample, w') \<Rightarrow>
          let grid_shape = grid_shape_of lib sample;
              objects = [Wall, Floor, Goal, Door, Key];
              colors = [NONE, YELLOW];
              observation_shape = \<lparr>height = 7, width = 7\<rparr>;
              state_space = \<lparr>StateSpace.grid_shape = grid_shape,
                             object_types = objects, colors = colors\<rparr>;
              observation_space = \<lparr>ObservationSpace.grid_shape = observation_shape,
                                   object_types = objects, colors = colors\<rparr>;
              action_space = \<lparr>actions = Action_list lib\<rparr>;
              domain_space = \<lparr>DomainSpace.state_space = state_space,
                              action_space = action_space,
                              observation_space = observation_space\<rparr>
          in Inr (create_env (minigrid_observation lib) domain_space reset
                    transitions rewards terminations, w'))"

text \<open>
  The registry: a Python dictionary literal, here the list of its items in the order of
  the source. A constructor takes the collaborators and the generators' state.
\<close>

type_synonym ('s, 'act, 'obs, 'w) Constructor =
  "('s, 'act, 'obs, 'w) collaborators \<Rightarrow> 'w \<Rightarrow>
   error + (('s, 'act, 'obs, 'w) InnerEnv \<times> 'w)"

definition STRING_TO_GYM_CONSTRUCTOR ::
  "(string \<times> ('s, 'act, 'obs, 'w) Constructor) list" where
  "STRING_TO_GYM_CONSTRUCTOR =
     [(''Empty-5x5-v0'', \<lambda>lib. env_empty lib 5 False),
      (''Empty-Random-5x5-v0'', \<lambda>lib. env_empty lib 5 True),
      (''Empty-6x6-v0'', \<lambda>lib. env_empty lib 6 False),
      (''Empty-Random-6x6-v0'', \<lambda>lib. env_empty lib 6 True),
      (''Empty-8x8-v0'', \<lambda>lib. env_empty lib 8 False),
      (''Empty-16x16-v0'', \<lambda>lib. env_empty lib 16 False),
      (''FourRooms-v0'', \<lambda>lib. env_four_room lib),
      (''Dynamic-Obstacles-5x5-v0'', \<lambda>lib. env_dynamic_obstacle lib 5 False 2),
      (''Dynamic-Obstacles-Random-5x5-v0'', \<lambda>lib. env_dynamic_obstacle lib 5 True 2),
      (''Dynamic-Obstacles-6x6-v0'', \<lambda>lib. env_dynamic_obstacle lib 6 False 3),
      (''Dynamic-Obstacles-Random-6x6-v0'', \<lambda>lib. env_dynamic_obstacle lib 6 True 3),
      (''Dynamic-Obstacles-8x8-v0'', \<lambda>lib. env_dynamic_obstacle lib 8 False 4),
      (''Dynamic-Obstacles-16x16-v0'', \<lambda>lib. env_dynamic_obstacle lib 16 False 8),
      (''KeyDoor-5x5-v0'', \<lambda>lib. gym_keydoor_env lib 5),
      (''KeyDoor-6x6-v0'', \<lambda>lib. gym_keydoor_env lib 6),
      (''KeyDoor-8x8-v0'', \<lambda>lib. gym_keydoor_env lib 8),
      (''KeyDoor-16x16-v0'', \<lambda>lib. gym_keydoor_env lib 16)]"

text \<open>\<^verbatim>\<open>list(STRING_TO_GYM_CONSTRUCTOR.keys())\<close>, as the help text of the script prints it.\<close>

definition registry_keys :: "string list" where
  "registry_keys =
     map fst (STRING_TO_GYM_CONSTRUCTOR :: (string \<times> (unit, unit, unit, unit) Constructor) list)"

text \<open>
  \<^verbatim>\<open>
  def env_from_descr(descr):
      try:
          return STRING_TO_GYM_CONSTRUCTOR[descr]()
      except KeyError:
          raise ValueError(f"No environment named {descr} is implemented")
  \<close>
  The \<^verbatim>\<open>try\<close> covers the lookup and the call of the constructor: a
  \<open>KeyError\<close> of either becomes the \<open>ValueError\<close>; any other error of the
  constructor is raised as it is.
\<close>

definition env_from_descr ::
  "('s, 'act, 'obs, 'w) collaborators \<Rightarrow> string \<Rightarrow> 'w \<Rightarrow>
   error + (('s, 'act, 'obs, 'w) InnerEnv \<times> 'w)" where
  "env_from_descr lib descr w =
     (case map_of STRING_TO_GYM_CONSTRUCTOR descr of
        None \<Rightarrow> Inl (ValueError (''No environment named '' @ descr @ '' is implemented''))
      | Some constructor \<Rightarrow>
          (case constructor lib w of
             Inl (KeyError k) \<Rightarrow>
               Inl (ValueError (''No environment named '' @ descr @ '' is implemented''))
           | Inl e \<Rightarrow> Inl e
           | Inr built \<Rightarrow> Inr built))"

subsection \<open>Representations and the outer environment\<close>

text \<open>
  Modelled from the spec: a representation (the package \<^verbatim>\<open>representations\<close> is not
  among the sources) "converts one raw domain object (State or Observation) into a
  mapping of named numeric arrays, and separately exposes a space descriptor", which
  \<^verbatim>\<open>gym.py\<close> reads as \<^verbatim>\<open>space: Dict[str, np.ndarray]\<close>.
\<close>

record 'x Representation =
  space :: "string \<rightharpoonup> ndarray"
  convert :: "'x \<Rightarrow> (string \<rightharpoonup> ndarray)"

text \<open>
  The lookups \<^verbatim>\<open>create_state_representation(name, state_space)\<close> and
  \<^verbatim>\<open>create_observation_representation(name, observation_space)\<close> are not among
  the sources: they are the fields of this record, a parameter. A lookup raises for a
  name that is not registered.
\<close>

record ('s, 'obs) representations =
  create_state_representation :: "string \<Rightarrow> StateSpace \<Rightarrow> error + 's Representation"
  create_observation_representation ::
    "string \<Rightarrow> ObservationSpace \<Rightarrow> error + 'obs Representation"

text \<open>
  Modelled from the spec: the class \<open>OuterEnv\<close> (section 4.4), which is not among the
  sources. It "wraps exactly one Inner Environment" and "holds at most one state
  Representation and at most one observation Representation"; its step "delegates to
  Inner Environment, returns (reward, done)"; its observation is "projected through the
  currently installed observation Representation (raw object if none installed)"; its
  action space is the inner environment's.
\<close>

record ('s, 'act, 'obs, 'w) OuterEnv =
  inner_env :: "('s, 'act, 'obs, 'w) InnerEnv"
  state_rep :: "'s Representation option"
  observation_rep :: "'obs Representation option"

datatype 'x projection = Raw 'x | Arrays "string \<rightharpoonup> ndarray"

definition OuterEnv_action_space :: "('s, 'act, 'obs, 'w) OuterEnv \<Rightarrow> 'act ActionSpace" where
  "OuterEnv_action_space outer = InnerEnv.action_space (inner_env outer)"

definition OuterEnv_step ::
  "('s, 'act, 'obs, 'w) OuterEnv \<Rightarrow> 'act \<Rightarrow> 'w \<Rightarrow>
   error + ((float \<times> bool) \<times> ('s, 'act, 'obs, 'w) OuterEnv \<times> 'w)" where
  "OuterEnv_step outer a w =
     (case step (inner_env outer) a w of
        Inl e \<Rightarrow> Inl e
      | Inr (rd, env', w') \<Rightarrow> Inr (rd, outer\<lparr>inner_env := env'\<rparr>, w'))"

definition OuterEnv_observation ::
  "('s, 'act, 'obs, 'w) OuterEnv \<Rightarrow> error + 'obs projection" where
  "OuterEnv_observation outer =
     (case observation (inner_env outer) of
        None \<Rightarrow> Inl ResetRequired
      | Some obs \<Rightarrow>
          Inr (case observation_rep outer of
                 None \<Rightarrow> Raw obs
               | Some rep \<Rightarrow> Arrays (convert rep obs)))"

subsection \<open>The gym environment\<close>

text \<open>
  The attributes of \<open>GymEnvironment\<close> that \<^verbatim>\<open>__init__\<close> assigns, the two viewers
  of the rendering apart.
\<close>

record ('s, 'act, 'obs, 'w) GymEnvironment =
  outer_env :: "('s, 'act, 'obs, 'w) OuterEnv"
  state_space :: "DictSpace option"
  observation_space :: "DictSpace option"
  action_space :: Discrete

text \<open>
  \<^verbatim>\<open>
  def set_state_representation(self, name):
      self.outer_env.state_rep = create_state_representation(
          name, self.outer_env.inner_env.state_space)
      self.state_space = outer_space_to_gym_space(self.outer_env.state_rep.space)

  def set_observation_representation(self, name):
      self.outer_env.observation_rep = create_observation_representation(
          name, self.outer_env.inner_env.observation_space)
      self.observation_space = outer_space_to_gym_space(
          self.outer_env.observation_rep.space)
  \<close>
  When the lookup raises, nothing has been assigned.
\<close>

definition set_state_representation ::
  "('s, 'obs) representations \<Rightarrow> ('s, 'act, 'obs, 'w) GymEnvironment \<Rightarrow> string \<Rightarrow>
   error + ('s, 'act, 'obs, 'w) GymEnvironment" where
  "set_state_representation reps self name =
     (case create_state_representation reps name
             (InnerEnv.state_space (inner_env (outer_env self))) of
        Inl e \<Rightarrow> Inl e
      | Inr rep \<Rightarrow>
          Inr (self\<lparr>outer_env := (outer_env self)\<lparr>state_rep := Some rep\<rparr>,
                    GymEnvironment.state_space := Some (outer_space_to_gym_space (space rep))\<rparr>))"

definition set_observation_representation ::
  "('s, 'obs) representations \<Rightarrow> ('s, 'act, 'obs, 'w) GymEnvironment \<Rightarrow> string \<Rightarrow>
   error + ('s, 'act, 'obs, 'w) GymEnvironment" where
  "set_observation_representation reps self name =
     (case create_observation_representation reps name
             (InnerEnv.observation_space (inner_env (outer_env self))) of
        Inl e \<Rightarrow> Inl e
      | Inr rep \<Rightarrow>
          Inr (self\<lparr>outer_env := (outer_env self)\<lparr>observation_rep := Some rep\<rparr>,
                    GymEnvironment.observation_space :=
                      Some (outer_space_to_gym_space (space rep))\<rparr>))"

text \<open>
  \<^verbatim>\<open>GymEnvironment.__init__(constructor, state_rep_override, obs_rep_override)\<close>,
  on the outer environment that \<^verbatim>\<open>constructor()\<close> returns. The assignments are in
  the order of the source; an attribute that is not assigned yet holds \<open>None\<close>, or
  \<open>Discrete 0\<close> for the action space, which is assigned last.
\<close>

definition GymEnvironment_init ::
  "('s, 'obs) representations \<Rightarrow> ('s, 'act, 'obs, 'w) OuterEnv \<Rightarrow> string option \<Rightarrow>
   string option \<Rightarrow> error + ('s, 'act, 'obs, 'w) GymEnvironment" where
  "GymEnvironment_init reps outer state_rep_override obs_rep_override =
     (let self0 = \<lparr>outer_env = outer, state_space = None, observation_space = None,
                   action_space = Discrete 0\<rparr>
      in case (case state_rep_override of
                 Some name \<Rightarrow> set_state_representation reps self0 name
               | None \<Rightarrow>
                   Inr (self0\<lparr>GymEnvironment.state_space :=
                          (case state_rep (outer_env self0) of
                             Some rep \<Rightarrow> Some (outer_space_to_gym_space (space rep))
                           | None \<Rightarrow> None)\<rparr>)) of
           Inl e \<Rightarrow> Inl e
         | Inr self1 \<Rightarrow>
             (case (case obs_rep_override of
                      Some name \<Rightarrow> set_observation_representation reps self1 name
                    | None \<Rightarrow>
                        Inr (self1\<lparr>GymEnvironment.observation_space :=
                               (case observation_rep (outer_env self1) of
                                  Some rep \<Rightarrow> Some (outer_space_to_gym_space (space rep))
                                | None \<Rightarrow> None)\<rparr>)) of
                Inl e \<Rightarrow> Inl e
              | Inr self2 \<Rightarrow>
                  Inr (self2\<lparr>GymEnvironment.action_space :=
                         Discrete (num_actions (OuterEnv_action_space (outer_env self2)))\<rparr>)))"

text \<open>
  \<^verbatim>\<open>
  def step(self, action: int):
      action_ = self.outer_env.action_space.int_to_action(action)
      reward, done = self.outer_env.step(action_)
      return self.observation, reward, done, {}
  \<close>
  The result is the returned tuple (the last component is the empty dictionary), the
  environment after the step and the generators' state.
\<close>

definition GymEnvironment_step ::
  "('s, 'act, 'obs, 'w) GymEnvironment \<Rightarrow> int \<Rightarrow> 'w \<Rightarrow>
   error + (('obs projection \<times> float \<times> bool \<times> (string \<rightharpoonup> unit)) \<times>
            ('s, 'act, 'obs, 'w) GymEnvironment \<times> 'w)" where
  "GymEnvironment_step self i w =
     (case int_to_action (OuterEnv_action_space (outer_env self)) i of
        Inl e \<Rightarrow> Inl e
      | Inr action' \<Rightarrow>
          (case OuterEnv_step (outer_env self) action' w of
             Inl e \<Rightarrow> Inl e
           | Inr ((r, terminal), outer', w') \<Rightarrow>
               (case OuterEnv_observation outer' of
                  Inl e \<Rightarrow> Inl e
                | Inr obs \<Rightarrow>
                    Inr ((obs, r, terminal, Map.empty),
                         self\<lparr>outer_env := outer'\<rparr>, w'))))"

subsection \<open>A small instance\<close>

text \<open>
  An instance of the parameters, on which the theorems below are evaluated. A state is a
  pair of the side of the grid and the position of the agent; actions, observations and
  the generators' state are natural numbers. The agent moves by the action; the goal is
  position 3 (reward \<open>1.0\<close>), a position beyond it is the wall (reward \<open>- 1.0\<close>); the
  key-door reset function samples a larger grid at every call, and the four-rooms reset
  function raises a \<open>KeyError\<close>.
\<close>

definition example_collaborators :: "(nat \<times> nat, nat, nat, nat) collaborators" where
  "example_collaborators =
     \<lparr>Action_list = [0, 1, 2],
      grid_shape_of = (\<lambda>s. \<lparr>height = int (fst s), width = int (fst s)\<rparr>),
      reset_empty = (\<lambda>h w random_pos g. Inr ((nat h, 1), Suc g)),
      reset_rooms = (\<lambda>h w layout g. Inl (KeyError ''layout'')),
      reset_dynamic_obstacles = (\<lambda>h w n random_pos g. Inr ((nat h, 1), Suc g)),
      reset_keydoor = (\<lambda>h w g. Inr ((nat h + g, 1), Suc g)),
      update_agent = (\<lambda>s a g. ((fst s, snd s + a), g)),
      step_moving_obstacles = (\<lambda>s a g. (s, Suc g)),
      actuate_door = (\<lambda>s a g. (s, g)),
      pickup_mechanics = (\<lambda>s a g. (s, g)),
      reward_reach_goal = (\<lambda>s a ns. if snd ns = 3 then Finite False 1 0 else Finite False 0 0),
      reward_bump_moving_obstacle = (\<lambda>s a ns. Finite False 0 0),
      reward_bump_into_wall =
        (\<lambda>s a ns. if 3 < snd ns then Finite True 1 0 else Finite False 0 0),
      terminating_reach_goal = (\<lambda>s a ns. snd ns = 3),
      terminating_bump_moving_obstacle = (\<lambda>s a ns. False),
      terminating_bump_into_wall = (\<lambda>s a ns. 3 < snd ns),
      minigrid_observation = (\<lambda>s sp. snd s)\<rparr>"

definition example_domain_space :: "nat DomainSpace" where
  "example_domain_space =
     \<lparr>DomainSpace.state_space =
        \<lparr>StateSpace.grid_shape = \<lparr>height = 7, width = 7\<rparr>,
         object_types = [Wall, Floor, Goal], colors = [NONE]\<rparr>,
      action_space = \<lparr>actions = [0, 1, 2]\<rparr>,
      observation_space =
        \<lparr>ObservationSpace.grid_shape = \<lparr>height = 7, width = 7\<rparr>,
         object_types = [Wall, Floor, Goal], colors = [NONE]\<rparr>\<rparr>"

definition example_env :: "(nat \<times> nat, nat, nat, nat) InnerEnv" where
  "example_env =
     (create_env (minigrid_observation example_collaborators) example_domain_space
        (reset_empty example_collaborators 7 7 False)
        [update_agent example_collaborators]
        [reward_reach_goal example_collaborators, reward_bump_into_wall example_collaborators]
        [terminating_reach_goal example_collaborators,
         terminating_bump_into_wall example_collaborators])
     \<lparr>state := Some (7, 1), observation := Some 1\<rparr>"

definition example_representations :: "(nat \<times> nat, nat) representations" where
  "example_representations =
     \<lparr>create_state_representation =
        (\<lambda>name sp.
           if name = ''default''
           then Inr \<lparr>space = [''agent'' \<mapsto>
                        \<lparr>dtype = int64, shape = [2],
                         data = [IntVal (height (StateSpace.grid_shape sp)),
                                 IntVal (width (StateSpace.grid_shape sp))]\<rparr>],
                     convert = (\<lambda>s. [''agent'' \<mapsto>
                        \<lparr>dtype = int64, shape = [2],
                         data = [IntVal (int (snd s)), IntVal (int (snd s))]\<rparr>])\<rparr>
           else Inl (ValueError (''unknown representation '' @ name))),
      create_observation_representation =
        (\<lambda>name sp.
           if name = ''default''
           then Inr \<lparr>space = [''grid'' \<mapsto>
                        \<lparr>dtype = int64, shape = [1],
                         data = [IntVal (height (ObservationSpace.grid_shape sp))]\<rparr>],
                     convert = (\<lambda>obs. [''grid'' \<mapsto>
                        \<lparr>dtype = int64, shape = [1], data = [IntVal (int obs)]\<rparr>])\<rparr>
           else Inl (ValueError (''unknown representation '' @ name)))\<rparr>"

definition example_outer_env :: "(nat \<times> nat, nat, nat, nat) OuterEnv" where
  "example_outer_env = \<lparr>inner_env = example_env, state_rep = None, observation_rep = None\<rparr>"

definition example_gym :: "(nat \<times> nat, nat, nat, nat) GymEnvironment" where
  "example_gym =
     \<lparr>outer_env = example_outer_env, state_space = None, observation_space = None,
      action_space = Discrete 3\<rparr>"


text \<open>
  A bound array of unsigned integers with the element \<open>2\<^sup>6\<^sup>3\<close>, and one of floats
  with the element \<open>2.5\<close>.
\<close>

definition example_uint64_space :: "string \<rightharpoonup> ndarray" where
  "example_uint64_space =
     [''grid'' \<mapsto> \<lparr>dtype = uint64, shape = [1], data = [IntVal 9223372036854775808]\<rparr>]"

definition example_float_space :: "string \<rightharpoonup> ndarray" where
  "example_float_space =
     [''grid'' \<mapsto> \<lparr>dtype = float64, shape = [1], data = [FloatVal (Finite False 5 (- 1))]\<rparr>]"

section \<open>Properties\<close>

subsection \<open>Evaluating the float operations\<close>

text \<open>The recursion of \<open>bitlen\<close> and \<open>normalize_float\<close>, one step at a time on numerals.\<close>

lemma bitlen_0 [simp]: "bitlen 0 = 0"
  by (subst bitlen.simps) simp

lemma bitlen_Suc_0 [simp]: "bitlen (Suc 0) = Suc 0"
  by (subst bitlen.simps) simp

lemma bitlen_numeral [simp]: "bitlen (numeral k) = Suc (bitlen (numeral k div 2))"
  by (subst bitlen.simps) simp

lemma normalize_float_0 [simp]: "normalize_float 0 e = (0, e)"
  by (subst normalize_float.simps) simp

lemma normalize_float_Suc_0 [simp]: "normalize_float (Suc 0) e = (Suc 0, e)"
  by (subst normalize_float.simps) simp

lemma normalize_float_numeral [simp]:
  "normalize_float (numeral k) e =
     (if even (numeral k :: nat) then normalize_float (numeral k div 2) (e + 1)
      else (numeral k, e))"
  by (subst normalize_float.simps) simp

subsection \<open>The composed step function\<close>

lemma reward_py_sum: "reward rewards s a ns = py_sum (map (\<lambda>r. r s a ns) rewards)"
  by (simp add: reward_def py_sum_def foldl_map)

lemma termination_fn_iff:
  "termination_fn terminations s a ns = (\<exists>t \<in> set terminations. t s a ns)"
  by (induction terminations) auto

lemma step_create_env:
  assumes "contains (DomainSpace.action_space ds) a"
  shows "step ((create_env mo ds reset tfs rewards terms)\<lparr>state := Some s, observation := ob\<rparr>) a w =
     (case chain s a w tfs of
        (ns, w') \<Rightarrow>
          Inr ((reward rewards s a ns, termination_fn terms s a ns),
               (create_env mo ds reset tfs rewards terms)
                 \<lparr>state := Some ns,
                  observation := Some (mo ns (DomainSpace.observation_space ds))\<rparr>,
               w'))"
  using assms
  by (simp add: step_def functional_step_def create_env_def GridWorld_def split: prod.splits)




text \<open>
  C2. For every list of termination predicates, every state, every action of the action
  space and every next state, the termination closure of \<open>create_env\<close> is true
  exactly when one predicate of the list is true on \<open>(state, action, next_state)\<close>;
  on the empty list it is false; and the done flag that a step of the environment built
  by \<open>create_env\<close> returns is that disjunction, taken at the next state that the
  chained transitions produce.
\<close>
theorem C2_termination_any:
  assumes "contains (DomainSpace.action_space ds) a"
  shows "termination_fn terminations s a ns = (\<exists>t \<in> set terminations. t s a ns)
       \<and> termination_fn [] s a ns = False
       \<and> map_sum id (snd \<circ> fst)
           (step ((create_env mo ds reset tfs rewards terminations)\<lparr>state := Some s, observation := ob\<rparr>) a w)
         = Inr (\<exists>t \<in> set terminations. t s a (fst (chain s a w tfs)))"
  using assms
  by (simp add: step_create_env termination_fn_iff split: prod.splits)

theorem C2_termination_any_witness:
  "contains (DomainSpace.action_space example_domain_space) 2
   \<and> termination_fn [terminating_reach_goal example_collaborators,
                      terminating_bump_into_wall example_collaborators] (7, 1) 2 (7, 3) = True
   \<and> termination_fn ([] :: (nat \<times> nat, nat) TerminatingFunction list) (7, 1) 2 (7, 3) = False
   \<and> map_sum id (snd \<circ> fst) (step example_env 2 0) = Inr True
   \<and> map_sum id (snd \<circ> fst) (step example_env 1 0) = Inr False"
proof -
  have h: "contains (DomainSpace.action_space example_domain_space) (2::nat)"
    by (simp add: contains_def example_domain_space_def)
  have h1: "contains (DomainSpace.action_space example_domain_space) (1::nat)"
    by (simp add: contains_def example_domain_space_def)
  show ?thesis
    using h C2_termination_any [OF h,
      where terminations = "[terminating_reach_goal example_collaborators,
                             terminating_bump_into_wall example_collaborators]"
        and s = "(7, 1)" and ns = "(7, 3)"
        and mo = "minigrid_observation example_collaborators"
        and reset = "reset_empty example_collaborators 7 7 False"
        and tfs = "[update_agent example_collaborators]"
        and rewards = "[reward_reach_goal example_collaborators,
                        reward_bump_into_wall example_collaborators]"
        and ob = "Some 1" and w = 0]
      C2_termination_any [OF h1,
      where terminations = "[terminating_reach_goal example_collaborators,
                             terminating_bump_into_wall example_collaborators]"
        and s = "(7, 1)" and ns = "(7, 3)"
        and mo = "minigrid_observation example_collaborators"
        and reset = "reset_empty example_collaborators 7 7 False"
        and tfs = "[update_agent example_collaborators]"
        and rewards = "[reward_reach_goal example_collaborators,
                        reward_bump_into_wall example_collaborators]"
        and ob = "Some 1" and w = 0]
    by (simp add: example_env_def example_collaborators_def)
qed

text \<open>
  C3. When the list of transitions is empty, a step of the environment built by
  \<open>create_env\<close> with an action of the action space succeeds and leaves the state as it
  was; the state of the generators is as it was too.
\<close>
theorem C3_empty_transitions:
  assumes "contains (DomainSpace.action_space ds) a"
  shows "map_sum id (\<lambda>(rd, env', w'). (state env', w'))
           (step ((create_env mo ds reset [] rewards terminations)\<lparr>state := Some s, observation := ob\<rparr>) a w)
         = Inr (Some s, w)"
  using assms
  by (simp add: step_create_env)

theorem C3_empty_transitions_witness:
  "contains (DomainSpace.action_space example_domain_space) 2
   \<and> map_sum id (\<lambda>(rd, env', w'). (state env', w'))
       (step ((create_env (minigrid_observation example_collaborators) example_domain_space
                 (reset_empty example_collaborators 7 7 False) []
                 [reward_reach_goal example_collaborators]
                 [terminating_reach_goal example_collaborators])
              \<lparr>state := Some (7, 1), observation := None\<rparr>) 2 (0::nat))
     = Inr (Some (7, 1), 0)"
proof -
  have h: "contains (DomainSpace.action_space example_domain_space) (2::nat)"
    by (simp add: contains_def example_domain_space_def)
  show ?thesis
    using h C3_empty_transitions [OF h,
      where mo = "minigrid_observation example_collaborators"
        and reset = "reset_empty example_collaborators 7 7 False"
        and rewards = "[reward_reach_goal example_collaborators]"
        and terminations = "[terminating_reach_goal example_collaborators]"
        and s = "(7, 1)" and ob = None and w = 0]
    by simp
qed

subsection \<open>The builders\<close>

lemma plain_navigation_task_sample:
  "plain_navigation_task lib reset_func w =
     (case reset_func w of
        Inl e \<Rightarrow> Inl e
      | Inr (sample, w') \<Rightarrow>
          Inr (fst (projr (plain_navigation_task lib reset_func w)), w'))
   \<and> (reset_func w = Inr (sample, w') \<longrightarrow>
        StateSpace.grid_shape
          (InnerEnv.state_space (fst (projr (plain_navigation_task lib reset_func w))))
          = grid_shape_of lib sample
        \<and> reset_function (fst (projr (plain_navigation_task lib reset_func w))) = reset_func)"
  by (simp add: plain_navigation_task_def create_env_def GridWorld_def Let_def
           split: sum.splits prod.splits)

lemma env_dynamic_obstacle_sample:
  "env_dynamic_obstacle lib sz random_pos num_obstacles w =
     (case reset_dynamic_obstacles lib (sz + 2) (sz + 2) num_obstacles random_pos w of
        Inl e \<Rightarrow> Inl e
      | Inr (sample, w') \<Rightarrow>
          Inr (fst (projr (env_dynamic_obstacle lib sz random_pos num_obstacles w)), w'))
   \<and> (reset_dynamic_obstacles lib (sz + 2) (sz + 2) num_obstacles random_pos w
          = Inr (sample, w') \<longrightarrow>
        StateSpace.grid_shape
          (InnerEnv.state_space
             (fst (projr (env_dynamic_obstacle lib sz random_pos num_obstacles w))))
          = grid_shape_of lib sample
        \<and> reset_function (fst (projr (env_dynamic_obstacle lib sz random_pos num_obstacles w)))
          = reset_dynamic_obstacles lib (sz + 2) (sz + 2) num_obstacles random_pos)"
  by (simp add: env_dynamic_obstacle_def create_env_def GridWorld_def Let_def
           split: sum.splits prod.splits)

lemma gym_keydoor_env_sample:
  "gym_keydoor_env lib sz w =
     (case reset_keydoor lib (sz + 2) (sz + 2) w of
        Inl e \<Rightarrow> Inl e
      | Inr (sample, w') \<Rightarrow> Inr (fst (projr (gym_keydoor_env lib sz w)), w'))
   \<and> (reset_keydoor lib (sz + 2) (sz + 2) w = Inr (sample, w') \<longrightarrow>
        StateSpace.grid_shape (InnerEnv.state_space (fst (projr (gym_keydoor_env lib sz w))))
          = grid_shape_of lib sample
        \<and> reset_function (fst (projr (gym_keydoor_env lib sz w)))
          = reset_keydoor lib (sz + 2) (sz + 2))"
  by (simp add: gym_keydoor_env_def create_env_def GridWorld_def Let_def
           split: sum.splits prod.splits)

lemma env_empty_plain:
  "env_empty lib sz random_pos w
     = plain_navigation_task lib (reset_empty lib (sz + 2) (sz + 2) random_pos) w"
  by (simp add: env_empty_def)

lemma env_four_room_plain:
  "env_four_room lib w = plain_navigation_task lib (reset_rooms lib 19 19 (2, 2)) w"
  by (simp add: env_four_room_def)

lemma consistent_iff_constant:
  assumes "reset_func w = Inr (sample, w')"
  shows "(\<forall>w2 s2 w2'. reset_func w2 = Inr (s2, w2') \<longrightarrow> f s2 = f sample)
       = (\<forall>w1 s1 w1' w2 s2 w2'.
            reset_func w1 = Inr (s1, w1') \<longrightarrow> reset_func w2 = Inr (s2, w2') \<longrightarrow> f s1 = f s2)"
  using assms by metis

lemma builder_shape:
  assumes r: "reset_func w = Inr (sample, w')"
    and b: "builder = (case reset_func w of
                         Inl e \<Rightarrow> Inl e
                       | Inr (sample, w') \<Rightarrow> Inr (fst (projr builder), w'))"
    and s: "StateSpace.grid_shape (InnerEnv.state_space (fst (projr builder)))
              = grid_shape_of lib sample"
    and f: "reset_function (fst (projr builder)) = reset_func"
  shows "\<exists>env. builder = Inr (env, w')
           \<and> StateSpace.grid_shape (InnerEnv.state_space env) = grid_shape_of lib sample
           \<and> reset_function env = reset_func
           \<and> ((\<forall>w2 s2 w2'. reset_function env w2 = Inr (s2, w2') \<longrightarrow>
                   grid_shape_of lib s2 = StateSpace.grid_shape (InnerEnv.state_space env))
              = (\<forall>w1 s1 w1' w2 s2 w2'.
                   reset_func w1 = Inr (s1, w1') \<longrightarrow> reset_func w2 = Inr (s2, w2') \<longrightarrow>
                   grid_shape_of lib s1 = grid_shape_of lib s2))"
proof -
  have e: "builder = Inr (fst (projr builder), w')"
    using b r by simp
  have c: "(\<forall>w2 s2 w2'. reset_func w2 = Inr (s2, w2') \<longrightarrow>
                   grid_shape_of lib s2 = grid_shape_of lib sample)
              = (\<forall>w1 s1 w1' w2 s2 w2'.
                   reset_func w1 = Inr (s1, w1') \<longrightarrow> reset_func w2 = Inr (s2, w2') \<longrightarrow>
                   grid_shape_of lib s1 = grid_shape_of lib s2)"
    using consistent_iff_constant
            [where reset_func = reset_func and w = w and sample = sample and w' = w'
               and f = "grid_shape_of lib"] r
    by blast
  show ?thesis
    using e s f c by metis
qed

text \<open>
  C8. Each of \<open>plain_navigation_task\<close>, \<open>env_dynamic_obstacle\<close> and
  \<open>gym_keydoor_env\<close> calls the reset function once. When the call raises, the builder
  raises the same error. When it returns a sample, the builder returns an environment
  with the generators' state after that one call; the grid shape of the state space is
  the grid shape of that sample; the reset function of the environment is the same
  function; and every later sample of it has the grid shape of the state space exactly
  when the grid shape of the reset function is the same for all samples.
\<close>
theorem C8_grid_shape_from_one_sample:
  "(reset_func w = Inl e \<longrightarrow> plain_navigation_task lib reset_func w = Inl e)
   \<and> (reset_func w = Inr (sample, w') \<longrightarrow>
        (\<exists>env. plain_navigation_task lib reset_func w = Inr (env, w')
           \<and> StateSpace.grid_shape (InnerEnv.state_space env) = grid_shape_of lib sample
           \<and> reset_function env = reset_func
           \<and> ((\<forall>w2 s2 w2'. reset_function env w2 = Inr (s2, w2') \<longrightarrow>
                   grid_shape_of lib s2 = StateSpace.grid_shape (InnerEnv.state_space env))
              = (\<forall>w1 s1 w1' w2 s2 w2'.
                   reset_func w1 = Inr (s1, w1') \<longrightarrow> reset_func w2 = Inr (s2, w2') \<longrightarrow>
                   grid_shape_of lib s1 = grid_shape_of lib s2))))
   \<and> (let reset = reset_dynamic_obstacles lib (sz + 2) (sz + 2) num_obstacles random_pos in
        (reset w = Inl e \<longrightarrow>
           env_dynamic_obstacle lib sz random_pos num_obstacles w = Inl e)
        \<and> (reset w = Inr (sample, w') \<longrightarrow>
           (\<exists>env. env_dynamic_obstacle lib sz random_pos num_obstacles w = Inr (env, w')
              \<and> StateSpace.grid_shape (InnerEnv.state_space env) = grid_shape_of lib sample
              \<and> reset_function env = reset
              \<and> ((\<forall>w2 s2 w2'. reset_function env w2 = Inr (s2, w2') \<longrightarrow>
                      grid_shape_of lib s2 = StateSpace.grid_shape (InnerEnv.state_space env))
                 = (\<forall>w1 s1 w1' w2 s2 w2'.
                      reset w1 = Inr (s1, w1') \<longrightarrow> reset w2 = Inr (s2, w2') \<longrightarrow>
                      grid_shape_of lib s1 = grid_shape_of lib s2)))))
   \<and> (let reset = reset_keydoor lib (sz + 2) (sz + 2) in
        (reset w = Inl e \<longrightarrow> gym_keydoor_env lib sz w = Inl e)
        \<and> (reset w = Inr (sample, w') \<longrightarrow>
           (\<exists>env. gym_keydoor_env lib sz w = Inr (env, w')
              \<and> StateSpace.grid_shape (InnerEnv.state_space env) = grid_shape_of lib sample
              \<and> reset_function env = reset
              \<and> ((\<forall>w2 s2 w2'. reset_function env w2 = Inr (s2, w2') \<longrightarrow>
                      grid_shape_of lib s2 = StateSpace.grid_shape (InnerEnv.state_space env))
                 = (\<forall>w1 s1 w1' w2 s2 w2'.
                      reset w1 = Inr (s1, w1') \<longrightarrow> reset w2 = Inr (s2, w2') \<longrightarrow>
                      grid_shape_of lib s1 = grid_shape_of lib s2)))))"
proof -
  note p = plain_navigation_task_sample [of lib reset_func w sample w']
  note d = env_dynamic_obstacle_sample [of lib sz random_pos num_obstacles w sample w']
  note k = gym_keydoor_env_sample [of lib sz w sample w']
  have p1: "reset_func w = Inl e \<longrightarrow> plain_navigation_task lib reset_func w = Inl e"
    using p by (auto split: sum.splits)
  have p2: "reset_func w = Inr (sample, w') \<longrightarrow>
        (\<exists>env. plain_navigation_task lib reset_func w = Inr (env, w')
           \<and> StateSpace.grid_shape (InnerEnv.state_space env) = grid_shape_of lib sample
           \<and> reset_function env = reset_func
           \<and> ((\<forall>w2 s2 w2'. reset_function env w2 = Inr (s2, w2') \<longrightarrow>
                   grid_shape_of lib s2 = StateSpace.grid_shape (InnerEnv.state_space env))
              = (\<forall>w1 s1 w1' w2 s2 w2'.
                   reset_func w1 = Inr (s1, w1') \<longrightarrow> reset_func w2 = Inr (s2, w2') \<longrightarrow>
                   grid_shape_of lib s1 = grid_shape_of lib s2)))"
    using p builder_shape [of reset_func w sample w' "plain_navigation_task lib reset_func w" lib]
    by blast
  have d1: "reset_dynamic_obstacles lib (sz + 2) (sz + 2) num_obstacles random_pos w = Inl e
        \<longrightarrow> env_dynamic_obstacle lib sz random_pos num_obstacles w = Inl e"
    using d by (auto split: sum.splits)
  have d2: "reset_dynamic_obstacles lib (sz + 2) (sz + 2) num_obstacles random_pos w
              = Inr (sample, w') \<longrightarrow>
        (\<exists>env. env_dynamic_obstacle lib sz random_pos num_obstacles w = Inr (env, w')
           \<and> StateSpace.grid_shape (InnerEnv.state_space env) = grid_shape_of lib sample
           \<and> reset_function env
               = reset_dynamic_obstacles lib (sz + 2) (sz + 2) num_obstacles random_pos
           \<and> ((\<forall>w2 s2 w2'. reset_function env w2 = Inr (s2, w2') \<longrightarrow>
                   grid_shape_of lib s2 = StateSpace.grid_shape (InnerEnv.state_space env))
              = (\<forall>w1 s1 w1' w2 s2 w2'.
                   reset_dynamic_obstacles lib (sz + 2) (sz + 2) num_obstacles random_pos w1
                     = Inr (s1, w1') \<longrightarrow>
                   reset_dynamic_obstacles lib (sz + 2) (sz + 2) num_obstacles random_pos w2
                     = Inr (s2, w2') \<longrightarrow>
                   grid_shape_of lib s1 = grid_shape_of lib s2)))"
    using d builder_shape
            [of "reset_dynamic_obstacles lib (sz + 2) (sz + 2) num_obstacles random_pos"
                w sample w' "env_dynamic_obstacle lib sz random_pos num_obstacles w" lib]
    by blast
  have k1: "reset_keydoor lib (sz + 2) (sz + 2) w = Inl e \<longrightarrow> gym_keydoor_env lib sz w = Inl e"
    using k by (auto split: sum.splits)
  have k2: "reset_keydoor lib (sz + 2) (sz + 2) w = Inr (sample, w') \<longrightarrow>
        (\<exists>env. gym_keydoor_env lib sz w = Inr (env, w')
           \<and> StateSpace.grid_shape (InnerEnv.state_space env) = grid_shape_of lib sample
           \<and> reset_function env = reset_keydoor lib (sz + 2) (sz + 2)
           \<and> ((\<forall>w2 s2 w2'. reset_function env w2 = Inr (s2, w2') \<longrightarrow>
                   grid_shape_of lib s2 = StateSpace.grid_shape (InnerEnv.state_space env))
              = (\<forall>w1 s1 w1' w2 s2 w2'.
                   reset_keydoor lib (sz + 2) (sz + 2) w1 = Inr (s1, w1') \<longrightarrow>
                   reset_keydoor lib (sz + 2) (sz + 2) w2 = Inr (s2, w2') \<longrightarrow>
                   grid_shape_of lib s1 = grid_shape_of lib s2)))"
    using k builder_shape
            [of "reset_keydoor lib (sz + 2) (sz + 2)" w sample w' "gym_keydoor_env lib sz w" lib]
    by blast
  show ?thesis
    unfolding Let_def
    using p1 p2 d1 d2 k1 k2 by blast
qed

theorem C8_grid_shape_from_one_sample_witness:
  "reset_keydoor example_collaborators (5 + 2) (5 + 2) 0 = Inr ((7, 1), 1)
   \<and> (\<exists>env. gym_keydoor_env example_collaborators 5 0 = Inr (env, 1)
         \<and> StateSpace.grid_shape (InnerEnv.state_space env) = \<lparr>height = 7, width = 7\<rparr>
         \<and> reset_function env 1 = Inr ((8, 1), 2)
         \<and> grid_shape_of example_collaborators (8, 1) = \<lparr>height = 8, width = 8\<rparr>
         \<and> \<not> (\<forall>w2 s2 w2'. reset_function env w2 = Inr (s2, w2') \<longrightarrow>
                 grid_shape_of example_collaborators s2
                   = StateSpace.grid_shape (InnerEnv.state_space env)))
   \<and> reset_dynamic_obstacles example_collaborators (5 + 2) (5 + 2) 2 False 0 = Inr ((7, 1), 1)
   \<and> (\<exists>env. env_dynamic_obstacle example_collaborators 5 False 2 0 = Inr (env, 1)
         \<and> StateSpace.grid_shape (InnerEnv.state_space env) = \<lparr>height = 7, width = 7\<rparr>)
   \<and> reset_empty example_collaborators 7 7 False 0 = Inr ((7, 1), 1)
   \<and> (\<exists>env. plain_navigation_task example_collaborators
                (reset_empty example_collaborators 7 7 False) 0 = Inr (env, 1)
         \<and> StateSpace.grid_shape (InnerEnv.state_space env) = \<lparr>height = 7, width = 7\<rparr>)
   \<and> reset_rooms example_collaborators 19 19 (2, 2) 0 = Inl (KeyError ''layout'')
   \<and> plain_navigation_task example_collaborators
        (reset_rooms example_collaborators 19 19 (2, 2)) 0 = Inl (KeyError ''layout'')"
proof -
  note t = C8_grid_shape_from_one_sample
             [where lib = example_collaborators and sz = 5 and w = 0
                and reset_func = "reset_empty example_collaborators 7 7 False"
                and sample = "(7, 1)" and w' = 1
                and random_pos = False and num_obstacles = 2, unfolded Let_def]
  note u = C8_grid_shape_from_one_sample
             [where lib = example_collaborators and sz = 5 and w = 0
                and reset_func = "reset_rooms example_collaborators 19 19 (2, 2)"
                and e = "KeyError ''layout''"
                and random_pos = False and num_obstacles = 2, unfolded Let_def]
  have rk: "reset_keydoor example_collaborators (5 + 2) (5 + 2) 0 = Inr ((7, 1), 1)"
    by (simp add: example_collaborators_def)
  have rd: "reset_dynamic_obstacles example_collaborators (5 + 2) (5 + 2) 2 False 0
              = Inr ((7, 1), 1)"
    by (simp add: example_collaborators_def)
  have re: "reset_empty example_collaborators 7 7 False 0 = Inr ((7, 1), 1)"
    by (simp add: example_collaborators_def)
  have rr: "reset_rooms example_collaborators 19 19 (2, 2) 0 = Inl (KeyError ''layout'')"
    by (simp add: example_collaborators_def)
  have g7: "grid_shape_of example_collaborators (7, 1) = \<lparr>height = 7, width = 7\<rparr>"
    by (simp add: example_collaborators_def)
  have g8: "grid_shape_of example_collaborators (8, 1) = \<lparr>height = 8, width = 8\<rparr>"
    by (simp add: example_collaborators_def)
  have k1: "reset_keydoor example_collaborators (5 + 2) (5 + 2) 1 = Inr ((8, 1), 2)"
    by (simp add: example_collaborators_def)
  note tk = t [THEN conjunct2, THEN conjunct2, THEN conjunct2, THEN conjunct2, THEN mp, OF rk]
  note td = t [THEN conjunct2, THEN conjunct2, THEN conjunct1, THEN conjunct2, THEN mp, OF rd]
  note te = t [THEN conjunct2, THEN conjunct1, THEN mp, OF re]
  note ur = u [THEN conjunct1, THEN mp, OF rr]
  from tk obtain ek where ek_all:
    "gym_keydoor_env example_collaborators 5 0 = Inr (ek, 1)
     \<and> StateSpace.grid_shape (InnerEnv.state_space ek)
         = grid_shape_of example_collaborators (7, 1)
     \<and> reset_function ek = reset_keydoor example_collaborators (5 + 2) (5 + 2)
     \<and> ((\<forall>w2 s2 w2'. reset_function ek w2 = Inr (s2, w2') \<longrightarrow>
             grid_shape_of example_collaborators s2
               = StateSpace.grid_shape (InnerEnv.state_space ek))
        = (\<forall>w1 s1 w1' w2 s2 w2'.
             reset_keydoor example_collaborators (5 + 2) (5 + 2) w1 = Inr (s1, w1') \<longrightarrow>
             reset_keydoor example_collaborators (5 + 2) (5 + 2) w2 = Inr (s2, w2') \<longrightarrow>
             grid_shape_of example_collaborators s1 = grid_shape_of example_collaborators s2))"
    ..
  note ek = ek_all [THEN conjunct1]
  note eks = ek_all [THEN conjunct2, THEN conjunct1]
  note ekr = ek_all [THEN conjunct2, THEN conjunct2, THEN conjunct1]
  have ekn: "\<not> (\<forall>w2 s2 w2'. reset_function ek w2 = Inr (s2, w2') \<longrightarrow>
                 grid_shape_of example_collaborators s2
                   = StateSpace.grid_shape (InnerEnv.state_space ek))"
  proof
    assume "\<forall>w2 s2 w2'. reset_function ek w2 = Inr (s2, w2') \<longrightarrow>
                 grid_shape_of example_collaborators s2
                   = StateSpace.grid_shape (InnerEnv.state_space ek)"
    then have "grid_shape_of example_collaborators (8, 1)
                 = StateSpace.grid_shape (InnerEnv.state_space ek)"
      using ekr k1 by metis
    then show False
      using eks g7 g8 by simp
  qed
  have pk: "\<exists>env. gym_keydoor_env example_collaborators 5 0 = Inr (env, 1)
         \<and> StateSpace.grid_shape (InnerEnv.state_space env) = \<lparr>height = 7, width = 7\<rparr>
         \<and> reset_function env 1 = Inr ((8, 1), 2)
         \<and> grid_shape_of example_collaborators (8, 1) = \<lparr>height = 8, width = 8\<rparr>
         \<and> \<not> (\<forall>w2 s2 w2'. reset_function env w2 = Inr (s2, w2') \<longrightarrow>
                 grid_shape_of example_collaborators s2
                   = StateSpace.grid_shape (InnerEnv.state_space env))"
  proof (intro exI conjI)
    show "gym_keydoor_env example_collaborators 5 0 = Inr (ek, 1)"
      by (rule ek)
    show "StateSpace.grid_shape (InnerEnv.state_space ek) = \<lparr>height = 7, width = 7\<rparr>"
      using eks g7 by simp
    show "reset_function ek 1 = Inr ((8, 1), 2)"
      using ekr k1 by simp
    show "grid_shape_of example_collaborators (8, 1) = \<lparr>height = 8, width = 8\<rparr>"
      by (rule g8)
    show "\<not> (\<forall>w2 s2 w2'. reset_function ek w2 = Inr (s2, w2') \<longrightarrow>
                 grid_shape_of example_collaborators s2
                   = StateSpace.grid_shape (InnerEnv.state_space ek))"
      by (rule ekn)
  qed
  have pd: "\<exists>env. env_dynamic_obstacle example_collaborators 5 False 2 0 = Inr (env, 1)
         \<and> StateSpace.grid_shape (InnerEnv.state_space env) = \<lparr>height = 7, width = 7\<rparr>"
  proof -
    from td obtain ed where
      "env_dynamic_obstacle example_collaborators 5 False 2 0 = Inr (ed, 1)
       \<and> StateSpace.grid_shape (InnerEnv.state_space ed)
           = grid_shape_of example_collaborators (7, 1)
       \<and> reset_function ed
           = reset_dynamic_obstacles example_collaborators (5 + 2) (5 + 2) 2 False
       \<and> ((\<forall>w2 s2 w2'. reset_function ed w2 = Inr (s2, w2') \<longrightarrow>
               grid_shape_of example_collaborators s2
                 = StateSpace.grid_shape (InnerEnv.state_space ed))
          = (\<forall>w1 s1 w1' w2 s2 w2'.
               reset_dynamic_obstacles example_collaborators (5 + 2) (5 + 2) 2 False w1
                 = Inr (s1, w1') \<longrightarrow>
               reset_dynamic_obstacles example_collaborators (5 + 2) (5 + 2) 2 False w2
                 = Inr (s2, w2') \<longrightarrow>
               grid_shape_of example_collaborators s1 = grid_shape_of example_collaborators s2))"
      ..
    then show ?thesis
      using g7 by auto
  qed
  have pe: "\<exists>env. plain_navigation_task example_collaborators
                (reset_empty example_collaborators 7 7 False) 0 = Inr (env, 1)
         \<and> StateSpace.grid_shape (InnerEnv.state_space env) = \<lparr>height = 7, width = 7\<rparr>"
  proof -
    from te obtain ee where
      "plain_navigation_task example_collaborators
         (reset_empty example_collaborators 7 7 False) 0 = Inr (ee, 1)
       \<and> StateSpace.grid_shape (InnerEnv.state_space ee)
           = grid_shape_of example_collaborators (7, 1)
       \<and> reset_function ee = reset_empty example_collaborators 7 7 False
       \<and> ((\<forall>w2 s2 w2'. reset_function ee w2 = Inr (s2, w2') \<longrightarrow>
               grid_shape_of example_collaborators s2
                 = StateSpace.grid_shape (InnerEnv.state_space ee))
          = (\<forall>w1 s1 w1' w2 s2 w2'.
               reset_empty example_collaborators 7 7 False w1 = Inr (s1, w1') \<longrightarrow>
               reset_empty example_collaborators 7 7 False w2 = Inr (s2, w2') \<longrightarrow>
               grid_shape_of example_collaborators s1 = grid_shape_of example_collaborators s2))"
      ..
    then show ?thesis
      using g7 by auto
  qed
  have pr: "plain_navigation_task example_collaborators
        (reset_rooms example_collaborators 19 19 (2, 2)) 0 = Inl (KeyError ''layout'')"
    by (rule ur)
  from rk pk rd pd re pe rr pr show ?thesis
    by (intro conjI)
qed

subsection \<open>The registry\<close>

lemma registry_keys_any:
  "map fst (STRING_TO_GYM_CONSTRUCTOR ::
     (string \<times> ('s, 'act, 'obs, 'w) Constructor) list) = registry_keys"
  by (simp add: STRING_TO_GYM_CONSTRUCTOR_def registry_keys_def)

lemma registry_lookup_None:
  "(map_of (STRING_TO_GYM_CONSTRUCTOR ::
     (string \<times> ('s, 'act, 'obs, 'w) Constructor) list) descr = None)
   = (descr \<notin> set registry_keys)"
proof -
  have "set registry_keys = set (map fst (STRING_TO_GYM_CONSTRUCTOR ::
     (string \<times> ('s, 'act, 'obs, 'w) Constructor) list))"
    by (simp only: registry_keys_any)
  then show ?thesis
    by (simp add: map_of_eq_None_iff)
qed

lemma registry_keys_list:
  "registry_keys =
     [''Empty-5x5-v0'', ''Empty-Random-5x5-v0'', ''Empty-6x6-v0'', ''Empty-Random-6x6-v0'',
      ''Empty-8x8-v0'', ''Empty-16x16-v0'', ''FourRooms-v0'',
      ''Dynamic-Obstacles-5x5-v0'', ''Dynamic-Obstacles-Random-5x5-v0'',
      ''Dynamic-Obstacles-6x6-v0'', ''Dynamic-Obstacles-Random-6x6-v0'',
      ''Dynamic-Obstacles-8x8-v0'', ''Dynamic-Obstacles-16x16-v0'',
      ''KeyDoor-5x5-v0'', ''KeyDoor-6x6-v0'', ''KeyDoor-8x8-v0'', ''KeyDoor-16x16-v0'']"
  by (simp add: STRING_TO_GYM_CONSTRUCTOR_def registry_keys_def)

lemma plain_navigation_task_returns:
  "reset_func w = Inr r \<Longrightarrow> \<exists>env w'. plain_navigation_task lib reset_func w = Inr (env, w')"
  by (cases r) (simp add: plain_navigation_task_def Let_def)

lemma env_dynamic_obstacle_returns:
  "reset_dynamic_obstacles lib (sz + 2) (sz + 2) num_obstacles random_pos w = Inr r \<Longrightarrow>
   \<exists>env w'. env_dynamic_obstacle lib sz random_pos num_obstacles w = Inr (env, w')"
  by (cases r) (simp add: env_dynamic_obstacle_def Let_def)

lemma gym_keydoor_env_returns:
  "reset_keydoor lib (sz + 2) (sz + 2) w = Inr r \<Longrightarrow>
   \<exists>env w'. gym_keydoor_env lib sz w = Inr (env, w')"
  by (cases r) (simp add: gym_keydoor_env_def Let_def)

lemma registered_constructor_returns:
  fixes lib :: "('s, 'act, 'obs, 'w) collaborators"
  assumes c: "map_of STRING_TO_GYM_CONSTRUCTOR descr = Some c"
    and e: "\<forall>h wd rp. \<exists>r. reset_empty lib h wd rp w = Inr r"
    and r: "\<forall>h wd layout. \<exists>r. reset_rooms lib h wd layout w = Inr r"
    and d: "\<forall>h wd n rp. \<exists>r. reset_dynamic_obstacles lib h wd n rp w = Inr r"
    and k: "\<forall>h wd. \<exists>r. reset_keydoor lib h wd w = Inr r"
  shows "\<exists>env w'. c lib w = Inr (env, w')"
proof -
  have em: "\<And>sz rp. \<exists>env w'. env_empty lib sz rp w = Inr (env, w')"
    using e plain_navigation_task_returns unfolding env_empty_plain by metis
  have ro: "\<exists>env w'. env_four_room lib w = Inr (env, w')"
    using r plain_navigation_task_returns unfolding env_four_room_plain by metis
  have dy: "\<And>sz rp n. \<exists>env w'. env_dynamic_obstacle lib sz rp n w = Inr (env, w')"
    using d env_dynamic_obstacle_returns by metis
  have ke: "\<And>sz. \<exists>env w'. gym_keydoor_env lib sz w = Inr (env, w')"
    using k gym_keydoor_env_returns by metis
  have "(descr, c) \<in> set STRING_TO_GYM_CONSTRUCTOR"
    using c by (rule map_of_SomeD)
  then have "(\<exists>sz rp. c = (\<lambda>lib. env_empty lib sz rp)) \<or> c = (\<lambda>lib. env_four_room lib)
           \<or> (\<exists>sz rp n. c = (\<lambda>lib. env_dynamic_obstacle lib sz rp n))
           \<or> (\<exists>sz. c = (\<lambda>lib. gym_keydoor_env lib sz))"
    unfolding STRING_TO_GYM_CONSTRUCTOR_def by (simp only: set_simps insert_iff empty_iff prod.inject) blast
  then show ?thesis
    using em ro dy ke by auto
qed

text \<open>
  C5. For a name that is not a key of the registry, \<open>env_from_descr\<close> raises a
  \<open>ValueError\<close> whose message contains the name. A key of the registry has a
  constructor, and \<open>env_from_descr\<close> returns what that constructor returns: its inner
  environment, or its error, a \<open>KeyError\<close> of the constructor being raised as the
  \<open>ValueError\<close> of an unknown name. When the reset functions raise nothing, the
  constructor of every key returns an inner environment, and so does
  \<open>env_from_descr\<close>. The keys of the registry are the seventeen names listed.
\<close>
theorem C5_env_from_descr:
  fixes lib :: "('s, 'act, 'obs, 'w) collaborators"
  shows
  "(descr \<notin> set registry_keys \<longrightarrow>
      env_from_descr lib descr w
        = Inl (ValueError (''No environment named '' @ descr @ '' is implemented'')))
   \<and> (descr \<in> set registry_keys \<longrightarrow>
        (\<exists>c. map_of (STRING_TO_GYM_CONSTRUCTOR ::
                (string \<times> ('s, 'act, 'obs, 'w) Constructor) list) descr = Some c))
   \<and> (map_of STRING_TO_GYM_CONSTRUCTOR descr = Some c \<longrightarrow>
        env_from_descr lib descr w
          = (case c lib w of
               Inl (KeyError k) \<Rightarrow>
                 Inl (ValueError (''No environment named '' @ descr @ '' is implemented''))
             | Inl e \<Rightarrow> Inl e
             | Inr built \<Rightarrow> Inr built))
   \<and> (map_of STRING_TO_GYM_CONSTRUCTOR descr = Some c \<longrightarrow>
        (\<forall>h wd rp. \<exists>r. reset_empty lib h wd rp w = Inr r) \<longrightarrow>
        (\<forall>h wd layout. \<exists>r. reset_rooms lib h wd layout w = Inr r) \<longrightarrow>
        (\<forall>h wd n rp. \<exists>r. reset_dynamic_obstacles lib h wd n rp w = Inr r) \<longrightarrow>
        (\<forall>h wd. \<exists>r. reset_keydoor lib h wd w = Inr r) \<longrightarrow>
        (\<exists>env w'. c lib w = Inr (env, w') \<and> env_from_descr lib descr w = Inr (env, w')))
   \<and> registry_keys =
     [''Empty-5x5-v0'', ''Empty-Random-5x5-v0'', ''Empty-6x6-v0'', ''Empty-Random-6x6-v0'',
      ''Empty-8x8-v0'', ''Empty-16x16-v0'', ''FourRooms-v0'',
      ''Dynamic-Obstacles-5x5-v0'', ''Dynamic-Obstacles-Random-5x5-v0'',
      ''Dynamic-Obstacles-6x6-v0'', ''Dynamic-Obstacles-Random-6x6-v0'',
      ''Dynamic-Obstacles-8x8-v0'', ''Dynamic-Obstacles-16x16-v0'',
      ''KeyDoor-5x5-v0'', ''KeyDoor-6x6-v0'', ''KeyDoor-8x8-v0'', ''KeyDoor-16x16-v0'']
   \<and> set registry_keys = dom (map_of (STRING_TO_GYM_CONSTRUCTOR ::
        (string \<times> ('s, 'act, 'obs, 'w) Constructor) list))"
proof -
  have unknown: "descr \<notin> set registry_keys \<longrightarrow>
      env_from_descr lib descr w
        = Inl (ValueError (''No environment named '' @ descr @ '' is implemented''))"
  proof
    assume "descr \<notin> set registry_keys"
    then have "map_of (STRING_TO_GYM_CONSTRUCTOR ::
        (string \<times> ('s, 'act, 'obs, 'w) Constructor) list) descr = None"
      by (simp add: registry_lookup_None)
    then show "env_from_descr lib descr w
        = Inl (ValueError (''No environment named '' @ descr @ '' is implemented''))"
      by (simp add: env_from_descr_def)
  qed
  have known: "descr \<in> set registry_keys \<longrightarrow>
        (\<exists>c. map_of (STRING_TO_GYM_CONSTRUCTOR ::
                (string \<times> ('s, 'act, 'obs, 'w) Constructor) list) descr = Some c)"
    using registry_lookup_None [where ?'s = 's and ?'act = 'act and ?'obs = 'obs and ?'w = 'w
            and descr = descr]
    by auto
  have call: "map_of STRING_TO_GYM_CONSTRUCTOR descr = Some c \<longrightarrow>
        env_from_descr lib descr w
          = (case c lib w of
               Inl (KeyError k) \<Rightarrow>
                 Inl (ValueError (''No environment named '' @ descr @ '' is implemented''))
             | Inl e \<Rightarrow> Inl e
             | Inr built \<Rightarrow> Inr built)"
    by (simp add: env_from_descr_def)
  have returns: "map_of STRING_TO_GYM_CONSTRUCTOR descr = Some c \<longrightarrow>
        (\<forall>h wd rp. \<exists>r. reset_empty lib h wd rp w = Inr r) \<longrightarrow>
        (\<forall>h wd layout. \<exists>r. reset_rooms lib h wd layout w = Inr r) \<longrightarrow>
        (\<forall>h wd n rp. \<exists>r. reset_dynamic_obstacles lib h wd n rp w = Inr r) \<longrightarrow>
        (\<forall>h wd. \<exists>r. reset_keydoor lib h wd w = Inr r) \<longrightarrow>
        (\<exists>env w'. c lib w = Inr (env, w') \<and> env_from_descr lib descr w = Inr (env, w'))"
  proof (intro impI)
    assume c: "map_of STRING_TO_GYM_CONSTRUCTOR descr = Some c"
      and e: "\<forall>h wd rp. \<exists>r. reset_empty lib h wd rp w = Inr r"
      and r: "\<forall>h wd layout. \<exists>r. reset_rooms lib h wd layout w = Inr r"
      and d: "\<forall>h wd n rp. \<exists>r. reset_dynamic_obstacles lib h wd n rp w = Inr r"
      and k: "\<forall>h wd. \<exists>r. reset_keydoor lib h wd w = Inr r"
    obtain env w' where b: "c lib w = Inr (env, w')"
      using registered_constructor_returns [OF c e r d k] by blast
    then have "env_from_descr lib descr w = Inr (env, w')"
      using c by (simp add: env_from_descr_def)
    with b show "\<exists>env w'. c lib w = Inr (env, w') \<and> env_from_descr lib descr w = Inr (env, w')"
      by blast
  qed
  have keys: "registry_keys =
     [''Empty-5x5-v0'', ''Empty-Random-5x5-v0'', ''Empty-6x6-v0'', ''Empty-Random-6x6-v0'',
      ''Empty-8x8-v0'', ''Empty-16x16-v0'', ''FourRooms-v0'',
      ''Dynamic-Obstacles-5x5-v0'', ''Dynamic-Obstacles-Random-5x5-v0'',
      ''Dynamic-Obstacles-6x6-v0'', ''Dynamic-Obstacles-Random-6x6-v0'',
      ''Dynamic-Obstacles-8x8-v0'', ''Dynamic-Obstacles-16x16-v0'',
      ''KeyDoor-5x5-v0'', ''KeyDoor-6x6-v0'', ''KeyDoor-8x8-v0'', ''KeyDoor-16x16-v0'']"
    by (rule registry_keys_list)
  have doms: "set registry_keys = dom (map_of (STRING_TO_GYM_CONSTRUCTOR ::
        (string \<times> ('s, 'act, 'obs, 'w) Constructor) list))"
  proof -
    have "set registry_keys = set (map fst (STRING_TO_GYM_CONSTRUCTOR ::
        (string \<times> ('s, 'act, 'obs, 'w) Constructor) list))"
      by (simp only: registry_keys_any)
    then show ?thesis
      by (simp add: dom_map_of_conv_image_fst)
  qed
  from unknown known call returns keys doms show ?thesis by blast
qed

theorem C5_env_from_descr_witness:
  "''Maze-v0'' \<notin> set registry_keys
   \<and> env_from_descr example_collaborators ''Maze-v0'' 0
       = Inl (ValueError ''No environment named Maze-v0 is implemented'')
   \<and> ''KeyDoor-5x5-v0'' \<in> set registry_keys
   \<and> map_of STRING_TO_GYM_CONSTRUCTOR ''KeyDoor-5x5-v0''
       = Some (\<lambda>lib :: (nat \<times> nat, nat, nat, nat) collaborators. gym_keydoor_env lib 5)
   \<and> env_from_descr example_collaborators ''KeyDoor-5x5-v0'' 0
       = gym_keydoor_env example_collaborators 5 0
   \<and> (\<exists>env. env_from_descr example_collaborators ''KeyDoor-5x5-v0'' 0 = Inr (env, 1))
   \<and> ''FourRooms-v0'' \<in> set registry_keys
   \<and> env_four_room example_collaborators 0 = Inl (KeyError ''layout'')
   \<and> env_from_descr example_collaborators ''FourRooms-v0'' 0
       = Inl (ValueError ''No environment named FourRooms-v0 is implemented'')
   \<and> (\<exists>env w'.
        env_from_descr
          (example_collaborators\<lparr>reset_rooms := \<lambda>h w layout g. Inr ((nat h, 1), Suc g)\<rparr>)
          ''FourRooms-v0'' 0 = Inr (env, w'))"
proof -
  let ?ok = "example_collaborators\<lparr>reset_rooms := \<lambda>h w layout g. Inr ((nat h, 1), Suc g)\<rparr>"
  have unknown: "''Maze-v0'' \<notin> set registry_keys"
    by (simp add: registry_keys_list)
  have kd: "''KeyDoor-5x5-v0'' \<in> set registry_keys"
    by (simp add: registry_keys_list)
  have fr: "''FourRooms-v0'' \<in> set registry_keys"
    by (simp add: registry_keys_list)
  have ckd: "map_of STRING_TO_GYM_CONSTRUCTOR ''KeyDoor-5x5-v0''
       = Some (\<lambda>lib :: (nat \<times> nat, nat, nat, nat) collaborators. gym_keydoor_env lib 5)"
    by (simp add: STRING_TO_GYM_CONSTRUCTOR_def)
  have cfr: "map_of STRING_TO_GYM_CONSTRUCTOR ''FourRooms-v0''
       = Some (\<lambda>lib :: (nat \<times> nat, nat, nat, nat) collaborators. env_four_room lib)"
    by (simp add: STRING_TO_GYM_CONSTRUCTOR_def)
  have bkd: "\<exists>env. gym_keydoor_env example_collaborators 5 0 = Inr (env, 1)"
    by (simp add: gym_keydoor_env_def example_collaborators_def Let_def)
  have bfr: "env_four_room example_collaborators 0 = Inl (KeyError ''layout'')"
    by (simp add: env_four_room_def plain_navigation_task_def example_collaborators_def Let_def)
  have refused: "env_from_descr example_collaborators ''Maze-v0'' 0
       = Inl (ValueError ''No environment named Maze-v0 is implemented'')"
    using unknown C5_env_from_descr [where descr = "''Maze-v0''"
            and lib = example_collaborators and w = 0]
    by simp
  have built: "env_from_descr example_collaborators ''KeyDoor-5x5-v0'' 0
       = gym_keydoor_env example_collaborators 5 0"
    using ckd bkd C5_env_from_descr [where descr = "''KeyDoor-5x5-v0''"
            and lib = example_collaborators and w = 0
            and c = "\<lambda>lib. gym_keydoor_env lib 5"]
    by auto
  have misnamed: "env_from_descr example_collaborators ''FourRooms-v0'' 0
       = Inl (ValueError ''No environment named FourRooms-v0 is implemented'')"
    using cfr bfr C5_env_from_descr [where descr = "''FourRooms-v0''"
            and lib = example_collaborators and w = 0
            and c = "\<lambda>lib. env_four_room lib"]
    by simp
  have ok: "\<exists>env w'. env_from_descr ?ok ''FourRooms-v0'' 0 = Inr (env, w')"
  proof -
    have e: "\<forall>h wd rp. \<exists>r. reset_empty ?ok h wd rp 0 = Inr r"
      by (simp add: example_collaborators_def)
    have r: "\<forall>h wd layout. \<exists>r. reset_rooms ?ok h wd layout 0 = Inr r"
      by (simp add: example_collaborators_def)
    have d: "\<forall>h wd n rp. \<exists>r. reset_dynamic_obstacles ?ok h wd n rp 0 = Inr r"
      by (simp add: example_collaborators_def)
    have k: "\<forall>h wd. \<exists>r. reset_keydoor ?ok h wd 0 = Inr r"
      by (simp add: example_collaborators_def)
    show ?thesis
      using cfr e r d k C5_env_from_descr [where descr = "''FourRooms-v0''"
              and lib = ?ok and w = 0 and c = "\<lambda>lib. env_four_room lib"]
      by blast
  qed
  have returned: "\<exists>env. env_from_descr example_collaborators ''KeyDoor-5x5-v0'' 0 = Inr (env, 1)"
    using built bkd by simp
  from unknown refused kd ckd built returned fr bfr misnamed ok show ?thesis
    by (intro conjI)
qed

subsection \<open>The gym environment: representations and actions\<close>

text \<open>
  C6. When the lookup of the name succeeds, \<open>set_state_representation\<close> installs the
  representation that the lookup builds from the state space of the inner environment,
  and advertises the gym space of that representation; it leaves the inner environment,
  the observation representation and the other advertised spaces as they were.
  \<open>set_observation_representation\<close> does the same with the observation space. When the
  lookup raises, the setter raises the same error.
\<close>
theorem C6_representation_frame:
  "(create_state_representation reps name
        (InnerEnv.state_space (inner_env (outer_env self))) = Inr rep \<longrightarrow>
      (\<exists>self'. set_state_representation reps self name = Inr self'
         \<and> state_rep (outer_env self') = Some rep
         \<and> GymEnvironment.state_space self' = Some (outer_space_to_gym_space (space rep))
         \<and> inner_env (outer_env self') = inner_env (outer_env self)
         \<and> observation_rep (outer_env self') = observation_rep (outer_env self)
         \<and> GymEnvironment.observation_space self' = GymEnvironment.observation_space self
         \<and> GymEnvironment.action_space self' = GymEnvironment.action_space self))
   \<and> (create_observation_representation reps name
        (InnerEnv.observation_space (inner_env (outer_env self))) = Inr rep' \<longrightarrow>
      (\<exists>self'. set_observation_representation reps self name = Inr self'
         \<and> observation_rep (outer_env self') = Some rep'
         \<and> GymEnvironment.observation_space self'
             = Some (outer_space_to_gym_space (space rep'))
         \<and> inner_env (outer_env self') = inner_env (outer_env self)
         \<and> state_rep (outer_env self') = state_rep (outer_env self)
         \<and> GymEnvironment.state_space self' = GymEnvironment.state_space self
         \<and> GymEnvironment.action_space self' = GymEnvironment.action_space self))
   \<and> (create_state_representation reps name
        (InnerEnv.state_space (inner_env (outer_env self))) = Inl e \<longrightarrow>
      set_state_representation reps self name = Inl e)
   \<and> (create_observation_representation reps name
        (InnerEnv.observation_space (inner_env (outer_env self))) = Inl e' \<longrightarrow>
      set_observation_representation reps self name = Inl e')"
  by (simp add: set_state_representation_def set_observation_representation_def)

theorem C6_representation_frame_witness:
  "(\<exists>rep self'.
      create_state_representation example_representations ''default''
        (InnerEnv.state_space (inner_env (outer_env example_gym))) = Inr rep
      \<and> set_state_representation example_representations example_gym ''default'' = Inr self'
      \<and> inner_env (outer_env self') = example_env
      \<and> GymEnvironment.state_space self' = Some (outer_space_to_gym_space (space rep)))
   \<and> (\<exists>rep self'.
      create_observation_representation example_representations ''default''
        (InnerEnv.observation_space (inner_env (outer_env example_gym))) = Inr rep
      \<and> set_observation_representation example_representations example_gym ''default''
          = Inr self'
      \<and> inner_env (outer_env self') = example_env
      \<and> GymEnvironment.observation_space self' = Some (outer_space_to_gym_space (space rep)))
   \<and> set_state_representation example_representations example_gym ''compact''
       = Inl (ValueError ''unknown representation compact'')
   \<and> set_observation_representation example_representations example_gym ''compact''
       = Inl (ValueError ''unknown representation compact'')"
proof -
  obtain rs where rs: "create_state_representation example_representations ''default''
        (InnerEnv.state_space (inner_env (outer_env example_gym))) = Inr rs"
    by (simp add: example_representations_def)
  obtain ro where ro: "create_observation_representation example_representations ''default''
        (InnerEnv.observation_space (inner_env (outer_env example_gym))) = Inr ro"
    by (simp add: example_representations_def)
  have es: "create_state_representation example_representations ''compact''
        (InnerEnv.state_space (inner_env (outer_env example_gym)))
      = Inl (ValueError ''unknown representation compact'')"
    by (simp add: example_representations_def)
  have eo: "create_observation_representation example_representations ''compact''
        (InnerEnv.observation_space (inner_env (outer_env example_gym)))
      = Inl (ValueError ''unknown representation compact'')"
    by (simp add: example_representations_def)
  have ie: "inner_env (outer_env example_gym) = example_env"
    by (simp add: example_gym_def example_outer_env_def)
  note d = C6_representation_frame
             [where reps = example_representations and name = "''default''"
                and self = example_gym and rep = rs and rep' = ro]
  note c = C6_representation_frame
             [where reps = example_representations and name = "''compact''"
                and self = example_gym
                and e = "ValueError ''unknown representation compact''"
                and e' = "ValueError ''unknown representation compact''"]
  have p1: "\<exists>rep self'.
      create_state_representation example_representations ''default''
        (InnerEnv.state_space (inner_env (outer_env example_gym))) = Inr rep
      \<and> set_state_representation example_representations example_gym ''default'' = Inr self'
      \<and> inner_env (outer_env self') = example_env
      \<and> GymEnvironment.state_space self' = Some (outer_space_to_gym_space (space rep))"
    using d rs ie by metis
  have p2: "\<exists>rep self'.
      create_observation_representation example_representations ''default''
        (InnerEnv.observation_space (inner_env (outer_env example_gym))) = Inr rep
      \<and> set_observation_representation example_representations example_gym ''default''
          = Inr self'
      \<and> inner_env (outer_env self') = example_env
      \<and> GymEnvironment.observation_space self' = Some (outer_space_to_gym_space (space rep))"
    using d ro ie by metis
  have p3: "set_state_representation example_representations example_gym ''compact''
       = Inl (ValueError ''unknown representation compact'')"
    using c es by blast
  have p4: "set_observation_representation example_representations example_gym ''compact''
       = Inl (ValueError ''unknown representation compact'')"
    using c eo by blast
  from p1 p2 p3 p4 show ?thesis by blast
qed

text \<open>
  C7. After a representation has been installed by name, installing the same name again
  succeeds and returns the same gym environment: the advertised spaces are the ones
  advertised before the second install.
\<close>
theorem C7_representation_idempotent:
  "(set_observation_representation reps self name = Inr self1 \<longrightarrow>
      (\<exists>self2. set_observation_representation reps self1 name = Inr self2
         \<and> GymEnvironment.observation_space self2 = GymEnvironment.observation_space self1
         \<and> GymEnvironment.state_space self2 = GymEnvironment.state_space self1
         \<and> self2 = self1))
   \<and> (set_state_representation reps self name = Inr self1 \<longrightarrow>
      (\<exists>self2. set_state_representation reps self1 name = Inr self2
         \<and> GymEnvironment.state_space self2 = GymEnvironment.state_space self1
         \<and> GymEnvironment.observation_space self2 = GymEnvironment.observation_space self1
         \<and> self2 = self1))"
  by (auto simp: set_state_representation_def set_observation_representation_def
           split: sum.splits)

theorem C7_representation_idempotent_witness:
  "(\<exists>self1. set_observation_representation example_representations example_gym ''default''
               = Inr self1
      \<and> set_observation_representation example_representations self1 ''default'' = Inr self1
      \<and> GymEnvironment.observation_space self1
          = Some (outer_space_to_gym_space
                    [''grid'' \<mapsto> \<lparr>dtype = int64, shape = [1], data = [IntVal 7]\<rparr>]))
   \<and> (\<exists>self1. set_state_representation example_representations example_gym ''default''
               = Inr self1
      \<and> set_state_representation example_representations self1 ''default'' = Inr self1)"
proof -
  obtain o1 where o1: "set_observation_representation example_representations example_gym
                         ''default'' = Inr o1"
    by (simp add: set_observation_representation_def example_representations_def)
  obtain s1 where s1: "set_state_representation example_representations example_gym
                         ''default'' = Inr s1"
    by (simp add: set_state_representation_def example_representations_def)
  have sp: "GymEnvironment.observation_space o1
          = Some (outer_space_to_gym_space [''grid'' \<mapsto> \<lparr>dtype = int64, shape = [1], data = [IntVal 7]\<rparr>])"
    using o1
    by (auto simp: set_observation_representation_def example_representations_def
          example_gym_def example_outer_env_def example_env_def create_env_def GridWorld_def
          example_domain_space_def)
  have io: "set_observation_representation example_representations o1 ''default'' = Inr o1"
    using o1 C7_representation_idempotent
               [where reps = example_representations and self = example_gym
                  and name = "''default''" and ?self1.0 = o1]
    by blast
  have is1: "set_state_representation example_representations s1 ''default'' = Inr s1"
    using s1 C7_representation_idempotent
               [where reps = example_representations and self = example_gym
                  and name = "''default''" and ?self1.0 = s1]
    by blast
  from o1 s1 sp io is1 show ?thesis by blast
qed

lemma set_state_representation_inner:
  "set_state_representation reps self name = Inr self' \<Longrightarrow>
   inner_env (outer_env self') = inner_env (outer_env self)"
  by (auto simp: set_state_representation_def split: sum.splits)

lemma set_observation_representation_inner:
  "set_observation_representation reps self name = Inr self' \<Longrightarrow>
   inner_env (outer_env self') = inner_env (outer_env self)"
  by (auto simp: set_observation_representation_def split: sum.splits)

lemma GymEnvironment_init_action_space:
  assumes "GymEnvironment_init reps outer so oo = Inr self"
  shows "GymEnvironment.action_space self = Discrete (num_actions (OuterEnv_action_space outer))
       \<and> inner_env (outer_env self) = inner_env outer"
proof -
  let ?self0 = "\<lparr>outer_env = outer, state_space = None, observation_space = None,
                  action_space = Discrete 0\<rparr>"
  obtain self1 self2 where
    s1: "(case so of
            Some name \<Rightarrow> set_state_representation reps ?self0 name
          | None \<Rightarrow>
              Inr (?self0\<lparr>GymEnvironment.state_space :=
                     (case state_rep (outer_env ?self0) of
                        Some rep \<Rightarrow> Some (outer_space_to_gym_space (space rep))
                      | None \<Rightarrow> None)\<rparr>)) = Inr self1"
    and s2: "(case oo of
            Some name \<Rightarrow> set_observation_representation reps self1 name
          | None \<Rightarrow>
              Inr (self1\<lparr>GymEnvironment.observation_space :=
                     (case observation_rep (outer_env self1) of
                        Some rep \<Rightarrow> Some (outer_space_to_gym_space (space rep))
                      | None \<Rightarrow> None)\<rparr>)) = Inr self2"
    and s3: "self = self2\<lparr>GymEnvironment.action_space :=
                         Discrete (num_actions (OuterEnv_action_space (outer_env self2)))\<rparr>"
    using assms
    by (auto simp: GymEnvironment_init_def Let_def split: sum.splits)
  have i1: "inner_env (outer_env self1) = inner_env outer"
    using s1 by (cases so) (auto dest: set_state_representation_inner)
  have i2: "inner_env (outer_env self2) = inner_env (outer_env self1)"
    using s2 by (cases oo) (auto dest: set_observation_representation_inner)
  show ?thesis
    using s3 i1 i2 by (simp add: OuterEnv_action_space_def)
qed

lemma example_gym_init:
  "GymEnvironment_init example_representations example_outer_env None None = Inr example_gym"
  by (simp add: GymEnvironment_init_def example_gym_def example_outer_env_def
        OuterEnv_action_space_def num_actions_def example_env_def create_env_def
        GridWorld_def example_domain_space_def)

text \<open>
  C4. The gym environment that \<open>GymEnvironment_init\<close> returns advertises
  \<open>Discrete num_actions\<close>, whose members are the integers \<open>i\<close> with
  \<open>0 \<le> i < num_actions\<close>, for the action space of the inner environment. For such
  an integer \<open>i\<close>, \<open>GymEnvironment_step\<close> takes the \<open>i\<close>-th action of the list of
  the action space and returns what the step of the outer environment on that action
  returns, with the observation read after it; for any other integer it is refused.
\<close>
theorem C4_dense_action_range:
  "(GymEnvironment_init reps outer so oo = Inr self \<longrightarrow>
      GymEnvironment.action_space self = Discrete (num_actions (OuterEnv_action_space outer))
      \<and> OuterEnv_action_space (outer_env self) = OuterEnv_action_space outer
      \<and> discrete_contains (GymEnvironment.action_space self) i
          = (0 \<le> i \<and> i < num_actions (OuterEnv_action_space outer)))
   \<and> (0 \<le> i \<and> i < num_actions (OuterEnv_action_space (outer_env g)) \<longrightarrow>
      int_to_action (OuterEnv_action_space (outer_env g)) i
        = Inr (actions (OuterEnv_action_space (outer_env g)) ! nat i)
      \<and> GymEnvironment_step g i w
        = (case OuterEnv_step (outer_env g)
                  (actions (OuterEnv_action_space (outer_env g)) ! nat i) w of
             Inl e \<Rightarrow> Inl e
           | Inr ((r, terminal), outer', w') \<Rightarrow>
               (case OuterEnv_observation outer' of
                  Inl e \<Rightarrow> Inl e
                | Inr obs \<Rightarrow>
                    Inr ((obs, r, terminal, Map.empty), g\<lparr>outer_env := outer'\<rparr>, w'))))
   \<and> (i < 0 \<or> num_actions (OuterEnv_action_space (outer_env g)) \<le> i \<longrightarrow>
      GymEnvironment_step g i w
        = Inl (ActionOutOfRange i (num_actions (OuterEnv_action_space (outer_env g)))))"
proof -
  have a: "GymEnvironment_init reps outer so oo = Inr self \<longrightarrow>
      GymEnvironment.action_space self = Discrete (num_actions (OuterEnv_action_space outer))
      \<and> OuterEnv_action_space (outer_env self) = OuterEnv_action_space outer
      \<and> discrete_contains (GymEnvironment.action_space self) i
          = (0 \<le> i \<and> i < num_actions (OuterEnv_action_space outer))"
    using GymEnvironment_init_action_space [of reps outer so oo self]
    by (auto simp: OuterEnv_action_space_def)
  have b: "0 \<le> i \<and> i < num_actions (OuterEnv_action_space (outer_env g)) \<longrightarrow>
      int_to_action (OuterEnv_action_space (outer_env g)) i
        = Inr (actions (OuterEnv_action_space (outer_env g)) ! nat i)
      \<and> GymEnvironment_step g i w
        = (case OuterEnv_step (outer_env g)
                  (actions (OuterEnv_action_space (outer_env g)) ! nat i) w of
             Inl e \<Rightarrow> Inl e
           | Inr ((r, terminal), outer', w') \<Rightarrow>
               (case OuterEnv_observation outer' of
                  Inl e \<Rightarrow> Inl e
                | Inr obs \<Rightarrow>
                    Inr ((obs, r, terminal, Map.empty), g\<lparr>outer_env := outer'\<rparr>, w')))"
    by (simp add: GymEnvironment_step_def int_to_action_def)
  have c: "i < 0 \<or> num_actions (OuterEnv_action_space (outer_env g)) \<le> i \<longrightarrow>
      GymEnvironment_step g i w
        = Inl (ActionOutOfRange i (num_actions (OuterEnv_action_space (outer_env g))))"
    by (auto simp: GymEnvironment_step_def int_to_action_def)
  from a b c show ?thesis by blast
qed

theorem C4_dense_action_range_witness:
  "GymEnvironment_init example_representations example_outer_env None None = Inr example_gym
   \<and> GymEnvironment.action_space example_gym = Discrete 3
   \<and> discrete_contains (GymEnvironment.action_space example_gym) 2
   \<and> \<not> discrete_contains (GymEnvironment.action_space example_gym) 3
   \<and> int_to_action (OuterEnv_action_space (outer_env example_gym)) 2 = Inr 2
   \<and> map_sum id fst (GymEnvironment_step example_gym 2 0) = Inr (Raw 3, Finite False 1 0, True, Map.empty)
   \<and> GymEnvironment_step example_gym 3 0 = Inl (ActionOutOfRange 3 3)"
proof -
  have n: "num_actions (OuterEnv_action_space example_outer_env) = 3"
    by (simp add: example_outer_env_def OuterEnv_action_space_def num_actions_def
          example_env_def create_env_def GridWorld_def example_domain_space_def)
  have acts: "actions (OuterEnv_action_space example_outer_env) = [0, 1, 2]"
    by (simp add: example_outer_env_def OuterEnv_action_space_def
          example_env_def create_env_def GridWorld_def example_domain_space_def)
  have o: "outer_env example_gym = example_outer_env"
    by (simp add: example_gym_def)
  have st: "OuterEnv_step example_outer_env 2 0
            = Inr ((Finite False 1 0, True),
                   example_outer_env\<lparr>inner_env :=
                     example_env\<lparr>state := Some (7, 3), observation := Some 3\<rparr>\<rparr>, 0)"
  proof -
    have one: "py_sum [Finite False 1 0, Finite False 0 0] = Finite False 1 0"
      by (simp add: py_sum_def round_to_double_def Let_def)
    show ?thesis
      using one
      by (simp add: OuterEnv_step_def example_outer_env_def step_def functional_step_def
            contains_def example_env_def create_env_def GridWorld_def example_domain_space_def
            example_collaborators_def reward_py_sum)
  qed
  note t2 = C4_dense_action_range
             [where reps = example_representations and outer = example_outer_env
                and so = None and oo = None and self = example_gym and i = 2
                and g = example_gym and w = 0]
  note t3 = C4_dense_action_range
             [where reps = example_representations and outer = example_outer_env
                and so = None and oo = None and self = example_gym and i = 3
                and g = example_gym and w = 0]
  have a: "GymEnvironment.action_space example_gym = Discrete 3"
    using t2 example_gym_init n by simp
  have c2: "discrete_contains (GymEnvironment.action_space example_gym) 2"
    using t2 example_gym_init n by simp
  have c3: "\<not> discrete_contains (GymEnvironment.action_space example_gym) 3"
    using t3 example_gym_init n by simp
  have i2: "int_to_action (OuterEnv_action_space (outer_env example_gym)) 2 = Inr 2"
    using t2 n acts o by simp
  have s2: "map_sum id fst (GymEnvironment_step example_gym 2 0)
            = Inr (Raw 3, Finite False 1 0, True, Map.empty)"
    using t2 n acts o st
    by (simp add: OuterEnv_observation_def example_outer_env_def)
  have s3: "GymEnvironment_step example_gym 3 0 = Inl (ActionOutOfRange 3 3)"
    using t3 n o by simp
  from example_gym_init a c2 c3 i2 s2 s3 show ?thesis by blast
qed

subsection \<open>Advertised bounds and observation equality\<close>

lemma cast_int64_valid:
  "valid_elem int64 x \<Longrightarrow> cast_int64 x = x"
  by (cases x) (simp_all add: mod_pos_pos_trivial)

lemma cast_int64_in_range:
  "- (2 ^ 63) \<le> i \<Longrightarrow> i < 2 ^ 63 \<Longrightarrow> cast_int64 (IntVal i) = IntVal i"
  by (simp add: mod_pos_pos_trivial)

lemma cast_int64_zero_of: "cast_int64 (zero_of t) = IntVal 0"
  by (cases t) simp_all

lemma map_cast_int64_valid:
  "\<forall>x \<in> set xs. valid_elem int64 x \<Longrightarrow> map cast_int64 xs = xs"
  by (induction xs) (simp_all add: cast_int64_valid)

lemma map_cast_int64_in_range:
  "\<forall>x \<in> set xs. \<exists>i. x = IntVal i \<and> - (2 ^ 63) \<le> i \<and> i < 2 ^ 63 \<Longrightarrow>
   map cast_int64 xs = xs"
  by (induction xs) (auto simp: mod_pos_pos_trivial)

text \<open>
  The upper bound of the box is not always the bound array: the element \<open>2\<^sup>6\<^sup>3\<close> of
  an array of unsigned integers becomes \<open>- 2\<^sup>6\<^sup>3\<close>, and the element \<open>2.5\<close> of an
  array of floats becomes \<open>2\<close>.
\<close>
theorem C9_high_bound_counterexample:
  "example_uint64_space ''grid''
     = Some \<lparr>dtype = uint64, shape = [1], data = [IntVal 9223372036854775808]\<rparr>
   \<and> map_option high (outer_space_to_gym_space example_uint64_space ''grid'')
     = Some \<lparr>dtype = int64, shape = [1], data = [IntVal (- 9223372036854775808)]\<rparr>
   \<and> map_option (data \<circ> high) (outer_space_to_gym_space example_uint64_space ''grid'')
     \<noteq> map_option data (example_uint64_space ''grid'')
   \<and> example_float_space ''grid''
     = Some \<lparr>dtype = float64, shape = [1], data = [FloatVal (Finite False 5 (- 1))]\<rparr>
   \<and> map_option high (outer_space_to_gym_space example_float_space ''grid'')
     = Some \<lparr>dtype = int64, shape = [1], data = [IntVal 2]\<rparr>"
  by (simp add: example_uint64_space_def example_float_space_def outer_space_to_gym_space_def
        Box_init_def astype_int64_def)

text \<open>
  C9 (amended). The gym space has the names of the representation's space. For every
  named array \<open>v\<close> of it, the box under that name has as its lower bound an array of
  64-bit integers of the shape of \<open>v\<close> whose elements are all zero, and as its upper
  bound the array \<open>v\<close> cast to 64-bit integers, of the same shape. The elements of the
  upper bound are those of \<open>v\<close> when these are integers of the 64-bit signed range, and
  the upper bound is \<open>v\<close> itself when \<open>v\<close> is an array of 64-bit signed integers.
\<close>
theorem C9_bounds_cast_to_int64:
  assumes "sp k = Some v"
  shows "dom (outer_space_to_gym_space sp) = dom sp
       \<and> (\<exists>b. outer_space_to_gym_space sp k = Some b
              \<and> high b = astype_int64 v
              \<and> low b = astype_int64 (zeros_like v)
              \<and> dtype (low b) = int64 \<and> dtype (high b) = int64
              \<and> shape (low b) = shape v \<and> shape (high b) = shape v
              \<and> data (low b) = replicate (length (data v)) (IntVal 0)
              \<and> length (data (high b)) = length (data v)
              \<and> ((\<forall>x \<in> set (data v). \<exists>i. x = IntVal i \<and> - (2 ^ 63) \<le> i \<and> i < 2 ^ 63)
                  \<longrightarrow> data (high b) = data v)
              \<and> (dtype v = int64 \<and> (\<forall>x \<in> set (data v). valid_elem int64 x)
                  \<longrightarrow> high b = v))"
proof -
  have d: "dom (outer_space_to_gym_space sp) = dom sp"
    by (auto simp: outer_space_to_gym_space_def dom_def split: option.splits)
  have b: "outer_space_to_gym_space sp k = Some (Box_init (zeros_like v) v)"
    using assms by (simp add: outer_space_to_gym_space_def)
  have l: "data (low (Box_init (zeros_like v) v)) = replicate (length (data v)) (IntVal 0)"
    by (simp add: Box_init_def astype_int64_def zeros_like_def cast_int64_zero_of)
  have r: "(\<forall>x \<in> set (data v). \<exists>i. x = IntVal i \<and> - (2 ^ 63) \<le> i \<and> i < 2 ^ 63)
             \<longrightarrow> data (high (Box_init (zeros_like v) v)) = data v"
    using map_cast_int64_in_range [of "data v"]
    by (simp add: Box_init_def astype_int64_def)
  have e: "dtype v = int64 \<and> (\<forall>x \<in> set (data v). valid_elem int64 x)
             \<longrightarrow> high (Box_init (zeros_like v) v) = v"
    using map_cast_int64_valid [of "data v"]
    by (auto simp: Box_init_def astype_int64_def)
  have rest: "high (Box_init (zeros_like v) v) = astype_int64 v
      \<and> low (Box_init (zeros_like v) v) = astype_int64 (zeros_like v)
      \<and> dtype (low (Box_init (zeros_like v) v)) = int64
      \<and> dtype (high (Box_init (zeros_like v) v)) = int64
      \<and> shape (low (Box_init (zeros_like v) v)) = shape v
      \<and> shape (high (Box_init (zeros_like v) v)) = shape v
      \<and> length (data (high (Box_init (zeros_like v) v))) = length (data v)"
    by (simp add: Box_init_def astype_int64_def zeros_like_def)
  from d b l r e rest show ?thesis by blast
qed

theorem C9_bounds_cast_to_int64_witness:
  "[''grid'' \<mapsto> \<lparr>dtype = int64, shape = [2, 2],
                   data = [IntVal 3, IntVal 3, IntVal 5, IntVal 1]\<rparr>] ''grid''
     = Some \<lparr>dtype = int64, shape = [2, 2], data = [IntVal 3, IntVal 3, IntVal 5, IntVal 1]\<rparr>
   \<and> dtype \<lparr>dtype = int64, shape = [2, 2], data = [IntVal 3, IntVal 3, IntVal 5, IntVal 1]\<rparr>
       = int64
   \<and> list_all (valid_elem int64) [IntVal 3, IntVal 3, IntVal 5, IntVal 1]
   \<and> outer_space_to_gym_space
        [''grid'' \<mapsto> \<lparr>dtype = int64, shape = [2, 2],
                       data = [IntVal 3, IntVal 3, IntVal 5, IntVal 1]\<rparr>] ''grid''
     = Some \<lparr>low = \<lparr>dtype = int64, shape = [2, 2],
                    data = [IntVal 0, IntVal 0, IntVal 0, IntVal 0]\<rparr>,
             high = \<lparr>dtype = int64, shape = [2, 2],
                     data = [IntVal 3, IntVal 3, IntVal 5, IntVal 1]\<rparr>\<rparr>"
proof -
  let ?v = "\<lparr>dtype = int64, shape = [2, 2], data = [IntVal 3, IntVal 3, IntVal 5, IntVal 1]\<rparr>"
  have h: "[''grid'' \<mapsto> ?v] ''grid'' = Some ?v"
    by simp
  have t: "dtype ?v = int64 \<and> (\<forall>x \<in> set (data ?v). valid_elem int64 x)"
    by simp
  from h C9_bounds_cast_to_int64 [where sp = "[''grid'' \<mapsto> ?v]" and k = "''grid''" and v = ?v]
  obtain b where b: "outer_space_to_gym_space [''grid'' \<mapsto> ?v] ''grid'' = Some b"
    and lo: "data (low b) = replicate (length (data ?v)) (IntVal 0)"
    and dl: "dtype (low b) = int64" and sl: "shape (low b) = shape ?v"
    and hi: "dtype ?v = int64 \<and> (\<forall>x \<in> set (data ?v). valid_elem int64 x) \<longrightarrow> high b = ?v"
    by blast
  have hv: "high b = ?v"
    using hi t by blast
  have lv: "low b = \<lparr>dtype = int64, shape = [2, 2],
                     data = [IntVal 0, IntVal 0, IntVal 0, IntVal 0]\<rparr>"
    using lo dl sl by (cases "low b") (simp add: numeral_eq_Suc)
  have bv: "b = \<lparr>low = \<lparr>dtype = int64, shape = [2, 2],
                    data = [IntVal 0, IntVal 0, IntVal 0, IntVal 0]\<rparr>, high = ?v\<rparr>"
    using hv lv by (cases b) simp
  show ?thesis
    using h b bv by simp
qed

text \<open>
  C10. The \<^verbatim>\<open>__eq__\<close> of an observation, on another observation, is the
  conjunction of the equality of the grids and the equality of the agents; on a value of
  any other type it is \<open>NotImplemented\<close>, and it is \<open>NotImplemented\<close> only then.
\<close>
theorem C10_observation_eq:
  "Observation_eq grid_eq agent_eq a (ObservationValue b)
     = Truth (grid_eq (grid a) (grid b) \<and> agent_eq (agent a) (agent b))
   \<and> Observation_eq grid_eq agent_eq a (OtherValue x) = NotImplemented
   \<and> (Observation_eq grid_eq agent_eq a other = NotImplemented)
       = (\<not> isinstance_Observation other)"
  by (cases other) auto

theorem C10_observation_eq_witness:
  "Observation_eq (=) (=) \<lparr>grid = (1::nat), agent = (2::nat)\<rparr>
       (ObservationValue \<lparr>grid = 1, agent = 2\<rparr> :: (nat, nat, string) py_value) = Truth True
   \<and> Observation_eq (=) (=) \<lparr>grid = (1::nat), agent = (2::nat)\<rparr>
       (ObservationValue \<lparr>grid = 1, agent = 3\<rparr> :: (nat, nat, string) py_value) = Truth False
   \<and> Observation_eq (=) (=) \<lparr>grid = (1::nat), agent = (2::nat)\<rparr> (OtherValue ''x'')
       = NotImplemented"
  using C10_observation_eq [of "(=)" "(=)" "\<lparr>grid = (1::nat), agent = (2::nat)\<rparr>"
          "\<lparr>grid = 1, agent = 2\<rparr>" "''x''" "OtherValue ''x''"]
        C10_observation_eq [of "(=)" "(=)" "\<lparr>grid = (1::nat), agent = (2::nat)\<rparr>"
          "\<lparr>grid = 1, agent = 3\<rparr>" "''x''" "OtherValue ''x''"]
  by simp

end
